theory Spec2Isabelle
  imports Main
begin

section \<open>The backing store\<close>

text \<open>
  Every model function of the repository (\<open>models/*.js\<close>) talks to a keyed store through
  the wrapper of \<open>config/dynamodb.js\<close>. A table is the list of its rows; a row is found by
  its key, \<open>put\<close> replaces the row with the same key, \<open>delete\<close> removes it. The order of
  the list is the order in which a query returns the rows.

  Every call to the store may throw. The field \<open>outages\<close> of the world is the schedule of
  these failures: each call consumes the head of the list and throws when it is \<open>True\<close>;
  when the list is empty the call succeeds.

  A row keeps the attributes that the functions below read or write. A timestamp, in the
  code the text of \<open>toISOString()\<close>, is the number of milliseconds it denotes; the order
  of the texts is the order of the numbers.

  The tables have secondary indexes (\<open>scripts/createTables.js\<close>), and every key
  attribute of a table or of an index is declared as a string. A row without the key
  attribute of an index is left out of that index; a row in which the attribute is present
  with a value of another type, such as \<open>null\<close>, is refused by the store when it is
  written. The ledger has the index \<open>ParentIndex\<close> with the hash key \<open>parentId\<close>, so
  the field \<open>i_parentId\<close> of a row tells the three cases apart: \<open>None\<close> when the row
  has no such attribute, \<open>Some None\<close> when it is \<open>null\<close>, \<open>Some (Some c)\<close> when it is
  the identifier \<open>c\<close>.
\<close>

datatype error =
    UpstreamUnavailable
  | ConditionalCheckFailed
  | Error string

type_synonym timestamp = int

record interaction =
  interactionId :: string
  i_type :: string
  i_userId :: string
  i_contentId :: string
  i_content :: "string option"
  i_parentId :: "string option option"
  i_timestamp :: timestamp

record post =
  postId :: string
  p_userId :: "string option"
  likesCount :: "int option"
  commentsCount :: "int option"
  sharesCount :: "int option"
  p_timestamp :: "timestamp option"

text \<open>
  The attributes \<open>following\<close> and \<open>followers\<close> of a user row hold user ids.
  \<open>User.create\<close> stores an array; the updates \<open>ADD attr :set\<close> and
  \<open>DELETE attr :set\<close> of \<open>followUser\<close> and \<open>unfollowUser\<close> work on a string set of
  the store, which the client library hands to the program as a set object, not as an
  array.

  A field of the JavaScript object that can be missing is an option; for
  \<open>passwordHash\<close> the value \<open>None\<close> says that the object has no such field,
  \<open>Some None\<close> that the field is \<open>null\<close>.
\<close>

datatype ids =
    Array "string list"
  | StringSet "string set"

record user =
  userId :: string
  username :: "string option"
  email :: "string option"
  passwordHash :: "string option option"
  profilePicture :: "string option"
  bio :: "string option"
  following :: "ids option"
  followers :: "ids option"
  createdAt :: "timestamp option"
  updatedAt :: "timestamp option"

text \<open>A row of the rate-limiting table (\<open>middleware/rateLimit.js\<close>); times are in seconds.\<close>

record rateRecord =
  r_id :: string
  r_count :: int
  r_timestamp :: int
  r_expiryTime :: int

record story =
  contentId :: string
  s_contentType :: string
  s_userId :: "string option"

text \<open>
  The message that the controllers publish to the topic and emit on the socket of the
  recipient; \<open>Notification.create\<close> stores a \<open>notification\<close> row.
\<close>

record notificationMessage =
  n_type :: string
  senderId :: string
  recipientId :: "string option"
  n_contentId :: string
  n_contentType :: string
  n_message :: string
  n_timestamp :: timestamp

record notification =
  notificationId :: string
  nr_recipientId :: string
  nr_senderId :: string
  nr_type :: string
  nr_contentId :: "string option"
  nr_contentType :: "string option"
  nr_message :: string
  nr_read :: bool
  nr_timestamp :: timestamp

text \<open>
  Besides the tables, the world holds what has left the server: the messages published
  to the topic of \<open>services/snsService.js\<close>, and the events emitted on the sockets, each
  with the room it was sent to. A call to the topic may throw as a call to the store
  does, following the same schedule.
\<close>

record world =
  users :: "user list"
  posts :: "post list"
  stories :: "story list"
  interactions :: "interaction list"
  notifications :: "notification list"
  rateLimits :: "rateRecord list"
  topic :: "notificationMessage list"
  sockets :: "(string option \<times> notificationMessage) list"
  outages :: "bool list"

type_synonym 'a io = "world \<Rightarrow> (error + 'a) \<times> world"

definition tbl_get :: "('r \<Rightarrow> string) \<Rightarrow> string \<Rightarrow> 'r list \<Rightarrow> 'r option" where
  "tbl_get key k rows = find (\<lambda>r. key r = k) rows"

definition tbl_delete :: "('r \<Rightarrow> string) \<Rightarrow> string \<Rightarrow> 'r list \<Rightarrow> 'r list" where
  "tbl_delete key k rows = filter (\<lambda>r. key r \<noteq> k) rows"

definition tbl_put :: "('r \<Rightarrow> string) \<Rightarrow> 'r \<Rightarrow> 'r list \<Rightarrow> 'r list" where
  "tbl_put key r rows = tbl_delete key (key r) rows @ [r]"

text \<open>\<open>await m f\<close> runs \<open>m\<close> and continues with \<open>f\<close>; a thrown error skips \<open>f\<close>.\<close>

definition await :: "'a io \<Rightarrow> ('a \<Rightarrow> 'b io) \<Rightarrow> 'b io" where
  "await m f w = (case m w of (Inl e, w') \<Rightarrow> (Inl e, w') | (Inr x, w') \<Rightarrow> f x w')"

definition return :: "'a \<Rightarrow> 'a io" where
  "return x w = (Inr x, w)"

definition throw :: "error \<Rightarrow> 'a io" where
  "throw e w = (Inl e, w)"

text \<open>One call to the store: it fails as the schedule says, or runs \<open>op\<close>.\<close>

definition store_call :: "'a io \<Rightarrow> 'a io" where
  "store_call op w =
     (case outages w of
        [] \<Rightarrow> op w
      | b # bs \<Rightarrow> if b then (Inl UpstreamUnavailable, w\<lparr>outages := bs\<rparr>)
                  else op (w\<lparr>outages := bs\<rparr>))"

text \<open>
  The update expression \<open>ADD attr :n\<close> of the store: the row is created when the key is
  new, and a counter that is absent counts as 0.
\<close>

definition new_post :: "string \<Rightarrow> post" where
  "new_post pid = \<lparr>postId = pid, p_userId = None, likesCount = None, commentsCount = None,
                    sharesCount = None, p_timestamp = None\<rparr>"

definition add_opt :: "int option \<Rightarrow> int \<Rightarrow> int option" where
  "add_opt c n = Some ((case c of None \<Rightarrow> 0 | Some v \<Rightarrow> v) + n)"

definition the_post :: "post list \<Rightarrow> string \<Rightarrow> post" where
  "the_post ps pid = (case tbl_get postId pid ps of None \<Rightarrow> new_post pid | Some p \<Rightarrow> p)"

definition add_likesCount :: "string \<Rightarrow> int \<Rightarrow> post list \<Rightarrow> post list" where
  "add_likesCount pid n ps =
     tbl_put postId ((the_post ps pid)\<lparr>likesCount := add_opt (likesCount (the_post ps pid)) n\<rparr>) ps"

definition add_commentsCount :: "string \<Rightarrow> int \<Rightarrow> post list \<Rightarrow> post list" where
  "add_commentsCount pid n ps =
     tbl_put postId ((the_post ps pid)\<lparr>commentsCount := add_opt (commentsCount (the_post ps pid)) n\<rparr>) ps"

section \<open>The interaction ledger (\<open>models/Interaction.js\<close>)\<close>

record interactionData =
  d_interactionId :: "string option"
  d_type :: string
  d_userId :: string
  d_contentId :: string
  d_content :: "string option"
  d_parentId :: "string option"

text \<open>\<open>a || b\<close> on an optional string: the empty string is falsy as well.\<close>

definition or_else :: "string option \<Rightarrow> string \<Rightarrow> string" where
  "or_else a b = (case a of None \<Rightarrow> b | Some s \<Rightarrow> if s = [] then b else s)"

definition or_null :: "string option \<Rightarrow> string option" where
  "or_null a = (case a of None \<Rightarrow> None | Some s \<Rightarrow> if s = [] then None else Some s)"

text \<open>
  \<open>dynamoDb.put\<close> with \<open>attribute_not_exists(interactionId)\<close>. The store refuses an
  item whose \<open>parentId\<close> is \<open>null\<close>, the key of \<open>ParentIndex\<close> being a string, and
  writes nothing.
\<close>

definition put_new_interaction :: "interaction \<Rightarrow> unit io" where
  "put_new_interaction item =
     store_call (\<lambda>w.
       if i_parentId item = Some None
       then (Inl (Error ''ValidationException''), w)
       else if tbl_get interactionId (interactionId item) (interactions w) \<noteq> None
       then (Inl ConditionalCheckFailed, w)
       else (Inr (), w\<lparr>interactions := tbl_put interactionId item (interactions w)\<rparr>))"

definition update_commentsCount :: "string \<Rightarrow> int \<Rightarrow> unit io" where
  "update_commentsCount pid n =
     store_call (\<lambda>w. (Inr (), w\<lparr>posts := add_commentsCount pid n (posts w)\<rparr>))"

text \<open>
  \<open>Interaction.create\<close>; \<open>uuid\<close> and \<open>now\<close> are the values \<open>uuidv4()\<close> and
  \<open>new Date()\<close> give to this call. The item always has the attribute \<open>parentId\<close>:
  \<open>interactionData.parentId || null\<close>.
\<close>

definition Interaction_create :: "interactionData \<Rightarrow> string \<Rightarrow> timestamp \<Rightarrow> interaction io" where
  "Interaction_create d uuid now =
     (let item = \<lparr>interactionId = or_else (d_interactionId d) uuid,
                   i_type = d_type d,
                   i_userId = d_userId d,
                   i_contentId = d_contentId d,
                   i_content = Some (or_else (d_content d) []),
                   i_parentId = Some (or_null (d_parentId d)),
                   i_timestamp = now\<rparr>
      in await (put_new_interaction item) (\<lambda>_.
           if d_type d = ''comment''
           then await (update_commentsCount (d_contentId d) 1) (\<lambda>_. return item)
           else return item))"

definition Interaction_getById :: "string \<Rightarrow> interaction option io" where
  "Interaction_getById iid =
     store_call (\<lambda>w. (Inr (tbl_get interactionId iid (interactions w)), w))"

definition delete_interaction :: "string \<Rightarrow> unit io" where
  "delete_interaction iid =
     store_call (\<lambda>w. (Inr (), w\<lparr>interactions := tbl_delete interactionId iid (interactions w)\<rparr>))"

definition Interaction_delete :: "string \<Rightarrow> string \<Rightarrow> bool io" where
  "Interaction_delete iid uid =
     await (Interaction_getById iid) (\<lambda>found.
       case found of
         None \<Rightarrow> throw (Error ''Interaction not found'')
       | Some i \<Rightarrow>
           if i_userId i \<noteq> uid then throw (Error ''Unauthorized to delete this interaction'')
           else await (delete_interaction iid) (\<lambda>_.
                  if i_type i = ''comment''
                  then await (update_commentsCount (i_contentId i) (- 1)) (\<lambda>_. return True)
                  else return True))"

section \<open>Likes (\<open>models/Post.js\<close>)\<close>

datatype like_result = Success "int option" | Failure string

definition Post_getById :: "string \<Rightarrow> post option io" where
  "Post_getById pid = store_call (\<lambda>w. (Inr (tbl_get postId pid (posts w)), w))"

text \<open>\<open>Post.delete\<close> removes the row of the post and leaves the ledger as it is.\<close>

definition Post_delete :: "string \<Rightarrow> string \<Rightarrow> bool io" where
  "Post_delete pid uid =
     await (Post_getById pid) (\<lambda>found.
       if (case found of None \<Rightarrow> True | Some p \<Rightarrow> p_userId p \<noteq> Some uid)
       then throw (Error ''Unauthorized to delete this post'')
       else await (store_call (\<lambda>w. (Inr (), w\<lparr>posts := tbl_delete postId pid (posts w)\<rparr>)))
              (\<lambda>_. return True))"

text \<open>The counter read back for the response: \<open>(await Post.getById(postId)).likesCount\<close>.\<close>

definition read_likesCount :: "string \<Rightarrow> like_result io" where
  "read_likesCount pid =
     await (Post_getById pid) (\<lambda>found.
       case found of
         None \<Rightarrow> throw (Error ''TypeError'')
       | Some p \<Rightarrow> return (Success (likesCount p)))"

definition Post_like :: "string \<Rightarrow> string \<Rightarrow> string \<Rightarrow> timestamp \<Rightarrow> like_result io" where
  "Post_like pid uid uuid now =
     (let interactionItem = \<lparr>interactionId = uuid, i_type = ''like'', i_userId = uid,
                              i_contentId = pid, i_content = None, i_parentId = None,
                              i_timestamp = now\<rparr>
      in await (store_call (\<lambda>w.
                  (Inr (), w\<lparr>posts := add_likesCount pid 1 (posts w),
                              interactions := tbl_put interactionId interactionItem (interactions w)\<rparr>)))
           (\<lambda>_. read_likesCount pid))"

text \<open>The likes of one user on one content item in the ledger.\<close>

definition likes_by :: "string \<Rightarrow> string \<Rightarrow> interaction list \<Rightarrow> interaction list" where
  "likes_by uid pid rows =
     filter (\<lambda>i. i_userId i = uid \<and> i_contentId i = pid \<and> i_type i = ''like'') rows"

text \<open>
  The query of \<open>Post.unlike\<close> asks for these rows, on the index \<open>UserContentIndex\<close>
  with the key condition \<open>userId = :userId AND contentId = :contentId\<close> and the filter
  \<open>type = :type\<close>. The keys of that index are \<open>userId\<close> and \<open>timestamp\<close>
  (\<open>scripts/createTables.js\<close>), \<open>contentId\<close> is not one of them, and \<open>type\<close> is a
  reserved word used without an alias: the store refuses the query, whatever the ledger
  holds. So \<open>Post.unlike\<close> throws at its first call and writes nothing.
\<close>

definition query_likes :: "string \<Rightarrow> string \<Rightarrow> interaction list io" where
  "query_likes uid pid = store_call (\<lambda>w. (Inl (Error ''ValidationException''), w))"

definition Post_unlike :: "string \<Rightarrow> string \<Rightarrow> like_result io" where
  "Post_unlike pid uid =
     await (query_likes uid pid) (\<lambda>found.
       case found of
         [] \<Rightarrow> return (Failure ''Like not found'')
       | i # _ \<Rightarrow>
           await (store_call (\<lambda>w.
                    (Inr (), w\<lparr>posts := add_likesCount pid (- 1) (posts w),
                                interactions := tbl_delete interactionId (interactionId i) (interactions w)\<rparr>)))
             (\<lambda>_. read_likesCount pid))"

text \<open>What the claims count: the counters of a content item and the rows of the ledger.\<close>

definition likeCount :: "world \<Rightarrow> string \<Rightarrow> int" where
  "likeCount w c = (case likesCount (the_post (posts w) c) of None \<Rightarrow> 0 | Some n \<Rightarrow> n)"

definition commentCount :: "world \<Rightarrow> string \<Rightarrow> int" where
  "commentCount w c = (case commentsCount (the_post (posts w) c) of None \<Rightarrow> 0 | Some n \<Rightarrow> n)"

definition rows_of :: "string \<Rightarrow> string \<Rightarrow> interaction list \<Rightarrow> interaction list" where
  "rows_of kind c rows = filter (\<lambda>i. i_type i = kind \<and> i_contentId i = c) rows"


text \<open>
  The counters match the log when, for every content item, each counter is the number of
  rows of its kind in the ledger.
\<close>

definition consistent :: "world \<Rightarrow> bool" where
  "consistent w =
     (\<forall>c. likeCount w c = int (length (rows_of ''like'' c (interactions w))) \<and>
          commentCount w c = int (length (rows_of ''comment'' c (interactions w))))"

text \<open>
  A table has one row per key, and in a world that is \<open>well_formed\<close> the schedule of
  outages is empty: no call fails for want of the store.
\<close>

definition well_formed :: "world \<Rightarrow> bool" where
  "well_formed w = (outages w = [] \<and> distinct (map interactionId (interactions w)))"

text \<open>
  The operations on the ledger: \<open>Post.like\<close>, \<open>Post.unlike\<close>, the
  \<open>Interaction.create\<close> call of the controller's \<open>addComment\<close>, and
  \<open>Interaction.delete\<close>.
\<close>

datatype op =
    Like string string string timestamp
  | Unlike string string
  | AddComment string string "string option" "string option" string timestamp
  | Remove string string

fun apply_op :: "op \<Rightarrow> world \<Rightarrow> world" where
  "apply_op (Like pid uid uuid now) w = snd (Post_like pid uid uuid now w)"
| "apply_op (Unlike pid uid) w = snd (Post_unlike pid uid w)"
| "apply_op (AddComment uid cid content parent uuid now) w =
     snd (Interaction_create \<lparr>d_interactionId = None, d_type = ''comment'', d_userId = uid,
            d_contentId = cid, d_content = content, d_parentId = parent\<rparr> uuid now w)"
| "apply_op (Remove iid uid) w = snd (Interaction_delete iid uid w)"

fun run :: "world \<Rightarrow> op list \<Rightarrow> world" where
  "run w [] = w"
| "run w (x # xs) = run (apply_op x w) xs"

text \<open>
  A step is admissible when a like gets an identifier that is not in the ledger yet, and
  \<open>Interaction.delete\<close> is not aimed at a like.
\<close>

fun step_ok :: "world \<Rightarrow> op \<Rightarrow> bool" where
  "step_ok w (Like pid uid uuid now) = (tbl_get interactionId uuid (interactions w) = None)"
| "step_ok w (Remove iid uid) =
     (case tbl_get interactionId iid (interactions w) of None \<Rightarrow> True | Some i \<Rightarrow> i_type i \<noteq> ''like'')"
| "step_ok w _ = True"

fun admissible :: "world \<Rightarrow> op list \<Rightarrow> bool" where
  "admissible w [] = True"
| "admissible w (x # xs) = (step_ok w x \<and> admissible (apply_op x w) xs)"

section \<open>Users and the follow graph (\<open>models/User.js\<close>)\<close>

record userData =
  ud_userId :: "string option"
  ud_username :: "string option"
  ud_email :: "string option"
  ud_password :: "string option"
  ud_profilePicture :: "string option"
  ud_bio :: "string option"
  ud_following :: "string list option"
  ud_followers :: "string list option"

text \<open>\<open>delete user.passwordHash\<close>\<close>

definition delete_passwordHash :: "user \<Rightarrow> user" where
  "delete_passwordHash u = u\<lparr>passwordHash := None\<rparr>"

definition put_new_user :: "user \<Rightarrow> unit io" where
  "put_new_user item =
     store_call (\<lambda>w.
       if tbl_get userId (userId item) (users w) \<noteq> None
       then (Inl ConditionalCheckFailed, w)
       else (Inr (), w\<lparr>users := tbl_put userId item (users w)\<rparr>))"

text \<open>
  \<open>User.create\<close>; \<open>hash\<close> is what \<open>bcrypt.hash\<close> computes with the salt of this
  call.
\<close>

definition User_create :: "userData \<Rightarrow> string \<Rightarrow> timestamp \<Rightarrow> (string \<Rightarrow> string) \<Rightarrow> user io" where
  "User_create d uuid now hash =
     (let passwordHash = (case or_null (ud_password d) of None \<Rightarrow> None | Some p \<Rightarrow> Some (hash p));
          userItem = \<lparr>userId = or_else (ud_userId d) uuid,
                       username = ud_username d,
                       email = ud_email d,
                       passwordHash = Some passwordHash,
                       profilePicture = or_null (ud_profilePicture d),
                       bio = Some (or_else (ud_bio d) []),
                       following = Some (Array (case ud_following d of None \<Rightarrow> [] | Some xs \<Rightarrow> xs)),
                       followers = Some (Array (case ud_followers d of None \<Rightarrow> [] | Some xs \<Rightarrow> xs)),
                       createdAt = Some now,
                       updatedAt = Some now\<rparr>
      in await (put_new_user userItem) (\<lambda>_. return (delete_passwordHash userItem)))"

definition get_user :: "string \<Rightarrow> user option io" where
  "get_user uid = store_call (\<lambda>w. (Inr (tbl_get userId uid (users w)), w))"

definition User_getById :: "string \<Rightarrow> user option io" where
  "User_getById uid =
     await (get_user uid) (\<lambda>found.
       case found of
         None \<Rightarrow> return None
       | Some u \<Rightarrow> return (Some (delete_passwordHash u)))"

definition query_username :: "string \<Rightarrow> user list io" where
  "query_username name = store_call (\<lambda>w. (Inr (filter (\<lambda>u. username u = Some name) (users w)), w))"

definition query_email :: "string \<Rightarrow> user list io" where
  "query_email e = store_call (\<lambda>w. (Inr (filter (\<lambda>u. email u = Some e) (users w)), w))"

definition User_getByUsername :: "string \<Rightarrow> user option io" where
  "User_getByUsername name =
     await (query_username name) (\<lambda>found.
       case found of
         u # _ \<Rightarrow> return (Some (delete_passwordHash u))
       | [] \<Rightarrow> return None)"

definition User_getByEmail :: "string \<Rightarrow> user option io" where
  "User_getByEmail e =
     await (query_email e) (\<lambda>found.
       case found of
         u # _ \<Rightarrow> return (Some u)
       | [] \<Rightarrow> return None)"

text \<open>An update creates the row when the key is new.\<close>

definition new_user :: "string \<Rightarrow> user" where
  "new_user uid = \<lparr>userId = uid, username = None, email = None, passwordHash = None,
                    profilePicture = None, bio = None, following = None, followers = None,
                    createdAt = None, updatedAt = None\<rparr>"

definition the_user :: "user list \<Rightarrow> string \<Rightarrow> user" where
  "the_user us uid = (case tbl_get userId uid us of None \<Rightarrow> new_user uid | Some u \<Rightarrow> u)"

text \<open>
  The updates \<open>ADD attr :set\<close> and \<open>DELETE attr :set\<close> of the store: the attribute has
  to be a set or absent; a set that becomes empty is removed from the row.
\<close>

definition add_ids :: "string set \<Rightarrow> ids option \<Rightarrow> error + ids option" where
  "add_ids s a =
     (case a of
        None \<Rightarrow> Inr (Some (StringSet s))
      | Some (StringSet t) \<Rightarrow> Inr (Some (StringSet (t \<union> s)))
      | Some (Array xs) \<Rightarrow> Inl (Error ''ValidationException''))"

definition delete_ids :: "string set \<Rightarrow> ids option \<Rightarrow> error + ids option" where
  "delete_ids s a =
     (case a of
        None \<Rightarrow> Inr None
      | Some (StringSet t) \<Rightarrow> Inr (if t - s = {} then None else Some (StringSet (t - s)))
      | Some (Array xs) \<Rightarrow> Inl (Error ''ValidationException''))"

definition update_following :: "string \<Rightarrow> (ids option \<Rightarrow> error + ids option) \<Rightarrow> unit io" where
  "update_following uid f =
     store_call (\<lambda>w.
       case f (following (the_user (users w) uid)) of
         Inl e \<Rightarrow> (Inl e, w)
       | Inr v \<Rightarrow> (Inr (), w\<lparr>users := tbl_put userId ((the_user (users w) uid)\<lparr>following := v\<rparr>) (users w)\<rparr>))"

definition update_followers :: "string \<Rightarrow> (ids option \<Rightarrow> error + ids option) \<Rightarrow> unit io" where
  "update_followers uid f =
     store_call (\<lambda>w.
       case f (followers (the_user (users w) uid)) of
         Inl e \<Rightarrow> (Inl e, w)
       | Inr v \<Rightarrow> (Inr (), w\<lparr>users := tbl_put userId ((the_user (users w) uid)\<lparr>followers := v\<rparr>) (users w)\<rparr>))"

text \<open>
  \<open>User.js\<close> takes \<open>dynamoDb\<close> from \<open>config/dynamodb.js\<close>. That object has the
  functions \<open>get\<close>, \<open>put\<close>, \<open>update\<close>, \<open>delete\<close>, \<open>query\<close>, \<open>scan\<close>,
  \<open>batchGet\<close>, \<open>batchWrite\<close> and \<open>transactWrite\<close>; it has no \<open>createSet\<close>.
\<close>

definition dynamoDb_createSet :: "(string list \<Rightarrow> string set) option" where
  "dynamoDb_createSet = None"

text \<open>
  \<open>User.followUser\<close> and \<open>User.unfollowUser\<close>. The parameters of the first update are
  built with \<open>dynamoDb.createSet([targetUserId])\<close>: calling what is not a function
  throws a \<open>TypeError\<close>, before any call to the store; the \<open>catch\<close> block throws it
  again.
\<close>

definition User_followUser :: "string \<Rightarrow> string \<Rightarrow> bool io" where
  "User_followUser uid targetUserId =
     (case dynamoDb_createSet of
        None \<Rightarrow> throw (Error ''TypeError: dynamoDb.createSet is not a function'')
      | Some createSet \<Rightarrow>
          await (update_following uid (add_ids (createSet [targetUserId]))) (\<lambda>_.
          await (update_followers targetUserId (add_ids (createSet [uid]))) (\<lambda>_.
          return True)))"

definition User_unfollowUser :: "string \<Rightarrow> string \<Rightarrow> bool io" where
  "User_unfollowUser uid targetUserId =
     (case dynamoDb_createSet of
        None \<Rightarrow> throw (Error ''TypeError: dynamoDb.createSet is not a function'')
      | Some createSet \<Rightarrow>
          await (update_following uid (delete_ids (createSet [targetUserId]))) (\<lambda>_.
          await (update_followers targetUserId (delete_ids (createSet [uid]))) (\<lambda>_.
          return True)))"

text \<open>
  \<open>Array.from(x)\<close>: the elements of an array; a set object of the client library is
  neither iterable nor array-like, and gives the empty array.
\<close>

definition Array_from :: "ids \<Rightarrow> string list" where
  "Array_from x = (case x of Array xs \<Rightarrow> xs | StringSet s \<Rightarrow> [])"

definition User_getFollowers :: "string \<Rightarrow> string list io" where
  "User_getFollowers uid =
     await (get_user uid) (\<lambda>result.
       case result of
         None \<Rightarrow> return []
       | Some u \<Rightarrow> (case followers u of None \<Rightarrow> return [] | Some x \<Rightarrow> return (Array_from x)))"

definition User_getFollowing :: "string \<Rightarrow> string list io" where
  "User_getFollowing uid =
     await (get_user uid) (\<lambda>result.
       case result of
         None \<Rightarrow> return []
       | Some u \<Rightarrow> (case following u of None \<Rightarrow> return [] | Some x \<Rightarrow> return (Array_from x)))"

text \<open>
  The test of \<open>userController.getProfile\<close>: does the requesting user \<open>a\<close> follow
  \<open>b\<close>? It is \<open>reqUserFollowing.includes(userId)\<close>.
\<close>

definition isFollowing :: "string \<Rightarrow> string \<Rightarrow> bool io" where
  "isFollowing a b =
     (if a \<noteq> b
      then await (User_getFollowing a) (\<lambda>reqUserFollowing. return (b \<in> set reqUserFollowing))
      else return False)"

section \<open>The rate limiter (\<open>middleware/rateLimit.js\<close>)\<close>

record options =
  maxRequests :: int
  windowSizeInSeconds :: int
  identifierKey :: string

record request =
  ip :: "string option"
  remoteAddress :: string
  req_user :: "string option"
  req_method :: string
  baseUrl :: string
  path :: string

text \<open>
  What the middleware does with a request: it answers with a status and a message, or it
  calls \<open>next()\<close>, after setting the headers \<open>X-RateLimit-Limit\<close>,
  \<open>X-RateLimit-Remaining\<close> and \<open>X-RateLimit-Reset\<close> or without setting them.
\<close>

datatype outcome =
    Answer nat string
  | Next "(int \<times> int \<times> int) option"

definition identifier_of :: "options \<Rightarrow> request \<Rightarrow> string" where
  "identifier_of opts req =
     (if identifierKey opts = ''ip'' then or_else (ip req) (remoteAddress req)
      else if identifierKey opts = ''userId'' \<and> req_user req \<noteq> None
      then (case req_user req of Some u \<Rightarrow> u | None \<Rightarrow> [])
      else or_else (ip req) (remoteAddress req))"

definition recordId :: "options \<Rightarrow> request \<Rightarrow> string" where
  "recordId opts req = identifier_of opts req @ '':'' @ (req_method req @ baseUrl req @ path req)"

definition get_rate :: "string \<Rightarrow> rateRecord option io" where
  "get_rate k = store_call (\<lambda>w. (Inr (tbl_get r_id k (rateLimits w)), w))"

text \<open>The update \<open>SET #count = #count + :inc\<close>; it needs the row and its counter.\<close>

definition increment_rate :: "string \<Rightarrow> unit io" where
  "increment_rate k =
     store_call (\<lambda>w.
       case tbl_get r_id k (rateLimits w) of
         None \<Rightarrow> (Inl (Error ''ValidationException''), w)
       | Some r \<Rightarrow> (Inr (), w\<lparr>rateLimits := tbl_put r_id (r\<lparr>r_count := r_count r + 1\<rparr>) (rateLimits w)\<rparr>))"

definition put_rate :: "rateRecord \<Rightarrow> unit io" where
  "put_rate r = store_call (\<lambda>w. (Inr (), w\<lparr>rateLimits := tbl_put r_id r (rateLimits w)\<rparr>))"

text \<open>The body of the \<open>try\<close> block; \<open>now\<close> is \<open>Math.floor(Date.now() / 1000)\<close>.\<close>

definition rateLimiter_try :: "options \<Rightarrow> request \<Rightarrow> int \<Rightarrow> outcome io" where
  "rateLimiter_try opts req now =
     (let windowStart = now - windowSizeInSeconds opts;
          headers = (\<lambda>existingRecord.
             case existingRecord of
               None \<Rightarrow> None
             | Some r \<Rightarrow> Some (maxRequests opts,
                               maxRequests opts - r_count r - 1,
                               r_timestamp r + windowSizeInSeconds opts - now));
          create = put_rate \<lparr>r_id = recordId opts req, r_count = 1, r_timestamp = now,
                              r_expiryTime = now + windowSizeInSeconds opts * 2\<rparr>
      in await (get_rate (recordId opts req)) (\<lambda>existingRecord.
           case existingRecord of
             Some r \<Rightarrow>
               if r_timestamp r > windowStart then
                 if r_count r \<ge> maxRequests opts
                 then return (Answer 429 ''Too many requests, please try again later'')
                 else await (increment_rate (recordId opts req))
                        (\<lambda>_. return (Next (headers existingRecord)))
               else await create (\<lambda>_. return (Next (headers existingRecord)))
           | None \<Rightarrow> await create (\<lambda>_. return (Next (headers existingRecord)))))"

text \<open>The middleware: an error of the \<open>try\<close> block is caught and the request goes on.\<close>

definition rateLimiter :: "options \<Rightarrow> request \<Rightarrow> int \<Rightarrow> world \<Rightarrow> outcome \<times> world" where
  "rateLimiter opts req now w =
     (case rateLimiter_try opts req now w of
        (Inl e, w') \<Rightarrow> (Next None, w')
      | (Inr out, w') \<Rightarrow> (out, w'))"

text \<open>The same client and route calling at the given times, one call after the other.\<close>

fun admits :: "options \<Rightarrow> request \<Rightarrow> int list \<Rightarrow> world \<Rightarrow> outcome list \<times> world" where
  "admits opts req [] w = ([], w)"
| "admits opts req (t # ts) w =
     (case rateLimiter opts req t w of
        (out, w') \<Rightarrow> (case admits opts req ts w' of (outs, w'') \<Rightarrow> (out # outs, w'')))"

section \<open>The timeline (\<open>Post.getTimelinePosts\<close>)\<close>

definition time_of :: "post \<Rightarrow> timestamp" where
  "time_of p = (case p_timestamp p of None \<Rightarrow> 0 | Some t \<Rightarrow> t)"

text \<open>
  The partition of one owner in the index \<open>UserIdIndex\<close> of the posts table
  (\<open>scripts/createTables.js\<close>: hash key \<open>userId\<close>, range key \<open>timestamp\<close>): the posts
  that have both attributes, in the order of the range key. The query of
  \<open>getTimelinePosts\<close> sets \<open>Limit\<close> and no direction, so it reads the partition from
  its start.
\<close>

definition partition_of :: "string \<Rightarrow> post list \<Rightarrow> post list" where
  "partition_of uid ps =
     sort_key time_of (filter (\<lambda>p. p_userId p = Some uid \<and> p_timestamp p \<noteq> None) ps)"

text \<open>
  \<open>dynamoDb.query\<close> is the wrapper of \<open>config/dynamodb.js\<close>: it returns
  \<open>result.Items\<close>, the array of the rows. A \<open>Limit\<close> below 1 is refused.
\<close>

definition query_UserIdIndex :: "string \<Rightarrow> nat \<Rightarrow> post list io" where
  "query_UserIdIndex uid limit =
     (if limit = 0 then throw (Error ''ValidationException'')
      else store_call (\<lambda>w. (Inr (take limit (partition_of uid (posts w))), w)))"

text \<open>\<open>Promise.all\<close>: the results of all the calls, or the error of one that throws.\<close>

fun Promise_all :: "'a io list \<Rightarrow> 'a list io" where
  "Promise_all [] = return []"
| "Promise_all (m # ms) = await m (\<lambda>x. await (Promise_all ms) (\<lambda>xs. return (x # xs)))"

text \<open>
  \<open>result.Items\<close> where \<open>result\<close> is what the wrapper returned, an array of rows: an
  array has no property \<open>Items\<close>, and the value is \<open>undefined\<close>, here \<open>None\<close>.
\<close>

definition Items :: "post list \<Rightarrow> post list option" where
  "Items result = None"

text \<open>
  \<open>xs.flatMap(f)\<close>: the elements of the arrays that \<open>f\<close> returns; a value that is
  not an array is an element as it is. An element of the result is a post or
  \<open>undefined\<close>.
\<close>

definition flatMap :: "('a \<Rightarrow> 'b list option) \<Rightarrow> 'a list \<Rightarrow> 'b option list" where
  "flatMap f xs = concat (map (\<lambda>x. case f x of None \<Rightarrow> [None] | Some ys \<Rightarrow> map Some ys) xs)"

text \<open>
  \<open>allPosts.sort(...)\<close> with the comparator \<open>b.timestamp - a.timestamp\<close>, which puts
  the newest first. The sort of the language is stable, as \<open>sort_key\<close> is; it moves the
  elements that are \<open>undefined\<close> to the end without calling the comparator on them.
\<close>

definition newest_first :: "post option list \<Rightarrow> post option list" where
  "newest_first ps =
     map Some (sort_key (\<lambda>p. - time_of p) (concat (map (\<lambda>p. case p of None \<Rightarrow> [] | Some x \<Rightarrow> [x]) ps)))
     @ filter (\<lambda>p. p = None) ps"

definition Post_getTimelinePosts :: "string list \<Rightarrow> nat \<Rightarrow> post option list io" where
  "Post_getTimelinePosts userIds limit =
     await (Promise_all (map (\<lambda>uid. query_UserIdIndex uid limit) userIds)) (\<lambda>results.
       (let allPosts = flatMap Items results;
            sortedPosts = newest_first allPosts
        in return (take limit sortedPosts)))"

section \<open>Notifications of the controllers\<close>

definition Story_getById :: "string \<Rightarrow> story option io" where
  "Story_getById cid = store_call (\<lambda>w. (Inr (tbl_get contentId cid (stories w)), w))"

text \<open>\<open>Notification.create\<close> (\<open>models/Notification.js\<close>), the one writer of the table.\<close>

definition Notification_create :: "notification \<Rightarrow> notification io" where
  "Notification_create item =
     store_call (\<lambda>w.
       if tbl_get notificationId (notificationId item) (notifications w) \<noteq> None
       then (Inl ConditionalCheckFailed, w)
       else (Inr (item\<lparr>nr_read := False\<rparr>),
             w\<lparr>notifications := tbl_put notificationId (item\<lparr>nr_read := False\<rparr>) (notifications w)\<rparr>))"

definition publishNotification :: "notificationMessage \<Rightarrow> unit io" where
  "publishNotification m = store_call (\<lambda>w. (Inr (), w\<lparr>topic := topic w @ [m]\<rparr>))"

text \<open>\<open>req.app.get('io').to(room).emit('notification', m)\<close>\<close>

definition emit :: "string option \<Rightarrow> notificationMessage \<Rightarrow> unit io" where
  "emit room m w = (Inr (), w\<lparr>sockets := sockets w @ [(room, m)]\<rparr>)"

text \<open>An inner \<open>try\<close> block whose \<open>catch\<close> only logs: the error is dropped.\<close>

definition attempt :: "unit io \<Rightarrow> unit io" where
  "attempt m w = (case m w of (Inl e, w') \<Rightarrow> (Inr (), w') | (Inr x, w') \<Rightarrow> (Inr x, w'))"

text \<open>
  The outer \<open>try\<close> block of a controller: an error becomes the status 500. A controller
  is modelled by the status it answers with and the world it leaves.
\<close>

definition respond :: "nat io \<Rightarrow> world \<Rightarrow> nat \<times> world" where
  "respond m w = (case m w of (Inl e, w') \<Rightarrow> (500, w') | (Inr st, w') \<Rightarrow> (st, w'))"

text \<open>The name in a message: \<open>user.username\<close> inside a template string.\<close>

definition name_of :: "user \<Rightarrow> string" where
  "name_of u = (case username u of None \<Rightarrow> ''undefined'' | Some n \<Rightarrow> n)"

text \<open>The notification of \<open>likePost\<close> and \<open>sharePost\<close> to the owner of the post.\<close>

definition notify_owner :: "string \<Rightarrow> string \<Rightarrow> string \<Rightarrow> string \<Rightarrow> post \<Rightarrow> timestamp \<Rightarrow> unit io" where
  "notify_owner kind verb uid pid p now =
     attempt (await (User_getById uid) (\<lambda>found.
       case found of
         None \<Rightarrow> throw (Error ''TypeError'')
       | Some u \<Rightarrow>
           (let notificationMessage =
                  \<lparr>n_type = kind, senderId = uid, recipientId = p_userId p, n_contentId = pid,
                   n_contentType = ''post'', n_message = name_of u @ verb, n_timestamp = now\<rparr>
            in await (publishNotification notificationMessage)
                 (\<lambda>_. emit (p_userId p) notificationMessage))))"

definition likePost :: "string \<Rightarrow> string \<Rightarrow> string \<Rightarrow> timestamp \<Rightarrow> timestamp \<Rightarrow> world \<Rightarrow> nat \<times> world" where
  "likePost pid uid uuid now now' =
     respond (await (Post_like pid uid uuid now) (\<lambda>result.
              await (Post_getById pid) (\<lambda>found.
              await (case found of
                       None \<Rightarrow> return ()
                     | Some p \<Rightarrow>
                         if p_userId p \<noteq> Some uid
                         then notify_owner ''like'' '' liked your post'' uid pid p now'
                         else return ())
                (\<lambda>_. return 200))))"

text \<open>\<open>Post.share\<close>: the share counter is incremented and read back.\<close>

definition add_sharesCount :: "string \<Rightarrow> int \<Rightarrow> post list \<Rightarrow> post list" where
  "add_sharesCount pid n ps =
     tbl_put postId ((the_post ps pid)\<lparr>sharesCount := add_opt (sharesCount (the_post ps pid)) n\<rparr>) ps"

definition Post_share :: "string \<Rightarrow> string \<Rightarrow> int option io" where
  "Post_share pid uid =
     store_call (\<lambda>w. (Inr (add_opt (sharesCount (the_post (posts w) pid)) 1),
                       w\<lparr>posts := add_sharesCount pid 1 (posts w)\<rparr>))"

definition sharePost :: "string \<Rightarrow> string \<Rightarrow> timestamp \<Rightarrow> world \<Rightarrow> nat \<times> world" where
  "sharePost pid uid now' =
     respond (await (Post_share pid uid) (\<lambda>result.
              await (Post_getById pid) (\<lambda>found.
              await (case found of
                       None \<Rightarrow> return ()
                     | Some p \<Rightarrow>
                         if p_userId p \<noteq> Some uid
                         then notify_owner ''share'' '' shared your post'' uid pid p now'
                         else return ())
                (\<lambda>_. return 200))))"

text \<open>
  \<open>addComment\<close> of \<open>controllers/interactionController.js\<close>. The owner of the content
  is looked up in the posts, then in the stories.
\<close>

definition find_content :: "string \<Rightarrow> (bool \<times> bool \<times> string option) io" where
  "find_content cid =
     await (Post_getById cid) (\<lambda>post.
       case post of
         Some p \<Rightarrow> return (True, True, p_userId p)
       | None \<Rightarrow>
           await (Story_getById cid) (\<lambda>story.
             case story of
               Some s \<Rightarrow> return (True, False, s_userId s)
             | None \<Rightarrow> return (False, False, None)))"

definition check_parent :: "string option \<Rightarrow> bool io" where
  "check_parent parentId =
     (case or_null parentId of
        None \<Rightarrow> return True
      | Some pid \<Rightarrow>
          await (Interaction_getById pid) (\<lambda>parentComment.
            case parentComment of
              None \<Rightarrow> return False
            | Some c \<Rightarrow> return (i_type c = ''comment'')))"

definition notify_content_owner :: "string \<Rightarrow> string \<Rightarrow> bool \<Rightarrow> string option \<Rightarrow> user \<Rightarrow> timestamp \<Rightarrow> unit io" where
  "notify_content_owner uid cid is_post contentOwnerId u now =
     attempt
       (let kind = (if is_post then ''post'' else ''reel'');
            notificationMessage =
              \<lparr>n_type = ''comment'', senderId = uid, recipientId = contentOwnerId, n_contentId = cid,
               n_contentType = kind, n_message = name_of u @ '' commented on your '' @ kind,
               n_timestamp = now\<rparr>
        in await (publishNotification notificationMessage)
             (\<lambda>_. emit contentOwnerId notificationMessage))"

definition notify_parent_author :: "string \<Rightarrow> string \<Rightarrow> user \<Rightarrow> timestamp \<Rightarrow> unit io" where
  "notify_parent_author uid parentId u now =
     attempt (await (Interaction_getById parentId) (\<lambda>parentComment.
       case parentComment of
         None \<Rightarrow> return ()
       | Some c \<Rightarrow>
           if i_userId c \<noteq> uid then
             await (User_getById (i_userId c)) (\<lambda>parentAuthor.
               (let notificationMessage =
                      \<lparr>n_type = ''reply'', senderId = uid, recipientId = Some (i_userId c),
                       n_contentId = parentId, n_contentType = ''comment'',
                       n_message = name_of u @ '' replied to your comment'', n_timestamp = now\<rparr>
                in await (publishNotification notificationMessage)
                     (\<lambda>_. emit (Some (i_userId c)) notificationMessage)))
           else return ()))"

text \<open>
  \<open>valid\<close> says that \<open>validationResult(req)\<close> has no errors; \<open>now\<close>, \<open>now'\<close> and
  \<open>now''\<close> are the three readings of the clock.
\<close>

definition addComment_rest ::
  "string \<Rightarrow> string \<Rightarrow> string option \<Rightarrow> string option \<Rightarrow> string \<Rightarrow>
   timestamp \<Rightarrow> timestamp \<Rightarrow> timestamp \<Rightarrow> bool \<times> bool \<times> string option \<Rightarrow> nat io" where
  "addComment_rest uid cid content parentId uuid now now' now'' =
     (\<lambda>(contentExists, is_post, contentOwnerId).
          if \<not> contentExists then return 404
          else await (check_parent parentId) (\<lambda>parent_ok.
            if \<not> parent_ok then return 404
            else await (Interaction_create
                          \<lparr>d_interactionId = None, d_type = ''comment'', d_userId = uid,
                           d_contentId = cid, d_content = content, d_parentId = parentId\<rparr> uuid now)
              (\<lambda>comment.
            await (User_getById uid) (\<lambda>found.
              case found of
                None \<Rightarrow> throw (Error ''TypeError'')
              | Some u \<Rightarrow>
                  await (if or_null contentOwnerId \<noteq> None \<and> contentOwnerId \<noteq> Some uid
                         then notify_content_owner uid cid is_post contentOwnerId u now'
                         else return ())
                    (\<lambda>_.
                  await (case or_null parentId of
                           None \<Rightarrow> return ()
                         | Some pid \<Rightarrow> notify_parent_author uid pid u now'')
                    (\<lambda>_. return 201))))))"

definition addComment ::
  "bool \<Rightarrow> string \<Rightarrow> string \<Rightarrow> string option \<Rightarrow> string option \<Rightarrow> string \<Rightarrow>
   timestamp \<Rightarrow> timestamp \<Rightarrow> timestamp \<Rightarrow> world \<Rightarrow> nat \<times> world" where
  "addComment valid uid cid content parentId uuid now now' now'' =
     respond
       (if \<not> valid then return 400
        else await (find_content cid)
               (addComment_rest uid cid content parentId uuid now now' now''))"

text \<open>
  \<open>likeComment\<close> of \<open>controllers/interactionController.js\<close>: the like of a comment
  is an interaction whose content is the comment; its author is notified.
\<close>

definition notify_comment_author :: "string \<Rightarrow> string \<Rightarrow> interaction \<Rightarrow> timestamp \<Rightarrow> unit io" where
  "notify_comment_author uid commentId comment now =
     attempt (await (User_getById uid) (\<lambda>user.
              await (User_getById (i_userId comment)) (\<lambda>commentAuthor.
                case user of
                  None \<Rightarrow> throw (Error ''TypeError'')
                | Some u \<Rightarrow>
                    (let notificationMessage =
                           \<lparr>n_type = ''like'', senderId = uid, recipientId = Some (i_userId comment),
                            n_contentId = commentId, n_contentType = ''comment'',
                            n_message = name_of u @ '' liked your comment'', n_timestamp = now\<rparr>
                     in await (publishNotification notificationMessage)
                          (\<lambda>_. emit (Some (i_userId comment)) notificationMessage)))))"

definition likeComment :: "string \<Rightarrow> string \<Rightarrow> string \<Rightarrow> timestamp \<Rightarrow> timestamp \<Rightarrow> world \<Rightarrow> nat \<times> world" where
  "likeComment commentId uid uuid now now' =
     respond
       (await (Interaction_getById commentId) (\<lambda>found.
          case found of
            None \<Rightarrow> return 404
          | Some comment \<Rightarrow>
              if i_type comment \<noteq> ''comment'' then return 404
              else
                await (Interaction_create
                         \<lparr>d_interactionId = None, d_type = ''like'', d_userId = uid,
                          d_contentId = commentId, d_content = Some [], d_parentId = None\<rparr> uuid now)
                  (\<lambda>_.
                await (if i_userId comment \<noteq> uid
                       then notify_comment_author uid commentId comment now'
                       else return ())
                  (\<lambda>_. return 200))))"

text \<open>
  What the claims about notifications speak of. The channels of two worlds are the same
  when the topic, the sockets and the notifications table are; \<open>only_adds P w w'\<close> says
  that every message of \<open>w'\<close> that is not in \<open>w\<close> satisfies \<open>P\<close> and that no
  notification row was written. The actor owns the content when the post, or else the
  story, with this key has the actor as its \<open>userId\<close>; the actor owns a comment when
  the actor wrote it.
\<close>

definition same_channels :: "world \<Rightarrow> world \<Rightarrow> bool" where
  "same_channels w w' =
     (topic w' = topic w \<and> sockets w' = sockets w \<and> notifications w' = notifications w)"

definition only_adds :: "(notificationMessage \<Rightarrow> bool) \<Rightarrow> world \<Rightarrow> world \<Rightarrow> bool" where
  "only_adds P w w' =
     ((\<forall>m \<in> set (topic w'). m \<in> set (topic w) \<or> P m) \<and>
      (\<forall>e \<in> set (sockets w'). e \<in> set (sockets w) \<or> P (snd e)) \<and>
      notifications w' = notifications w)"

definition owned_post :: "world \<Rightarrow> string \<Rightarrow> string \<Rightarrow> bool" where
  "owned_post w pid uid =
     (case tbl_get postId pid (posts w) of None \<Rightarrow> False | Some p \<Rightarrow> p_userId p = Some uid)"

definition owned_comment :: "world \<Rightarrow> string \<Rightarrow> string \<Rightarrow> bool" where
  "owned_comment w cid uid =
     (case tbl_get interactionId cid (interactions w) of None \<Rightarrow> False | Some c \<Rightarrow> i_userId c = uid)"

definition owned_content :: "world \<Rightarrow> string \<Rightarrow> string \<Rightarrow> bool" where
  "owned_content w cid uid =
     (case tbl_get postId cid (posts w) of
        Some p \<Rightarrow> p_userId p = Some uid
      | None \<Rightarrow> (case tbl_get contentId cid (stories w) of
                   Some s \<Rightarrow> s_userId s = Some uid
                 | None \<Rightarrow> False))"

text \<open>A program preserves a property of the world when every run from a world with the
  property ends in one, whether it returns or throws.\<close>

definition preserves :: "(world \<Rightarrow> bool) \<Rightarrow> 'a io \<Rightarrow> bool" where
  "preserves G m = (\<forall>w. G w \<longrightarrow> G (snd (m w)))"

definition channel_pred :: "(world \<Rightarrow> bool) \<Rightarrow> bool" where
  "channel_pred G = (\<forall>w w'. G w \<longrightarrow> same_channels w w' \<longrightarrow> G w')"

section \<open>The cursor codec (\<open>controllers/interactionController.js\<close>)\<close>









text \<open>
  A JSON value. A number is kept as the text of its literal; an object is the list of its
  members in the order of the keys.
\<close>

datatype json =
    JNull
  | JBool bool
  | JNum string
  | JStr string
  | JArr "json list"
  | JObj "(string \<times> json) list"






definition is_ws :: "char \<Rightarrow> bool" where
  "is_ws c = (c = CHR '' '' \<or> c = CHR 0x09 \<or> c = CHR 0x0A \<or> c = CHR 0x0D)"

definition skip_ws :: "string \<Rightarrow> string" where
  "skip_ws s = dropWhile is_ws s"

definition hex_value :: "char \<Rightarrow> nat option" where
  "hex_value c =
     (let n = (of_char c :: nat) in
      if 48 \<le> n \<and> n \<le> 57 then Some (n - 48)
      else if 97 \<le> n \<and> n \<le> 102 then Some (n - 87)
      else if 65 \<le> n \<and> n \<le> 70 then Some (n - 55)
      else None)"

definition utf8_of_code :: "nat \<Rightarrow> string" where
  "utf8_of_code n =
     (if n < 128 then [char_of n]
      else if n < 2048 then [char_of (192 + n div 64), char_of (128 + n mod 64)]
      else [char_of (224 + n div 4096), char_of (128 + (n div 64) mod 64), char_of (128 + n mod 64)])"

definition unescape :: "char \<Rightarrow> char option" where
  \<open>unescape e =
     (if e = CHR 0x22 then Some (CHR 0x22)
      else if e = CHR 0x5C then Some (CHR 0x5C)
      else if e = CHR ''/'' then Some (CHR ''/'')
      else if e = CHR ''b'' then Some (CHR 0x08)
      else if e = CHR ''f'' then Some (CHR 0x0C)
      else if e = CHR ''n'' then Some (CHR 0x0A)
      else if e = CHR ''r'' then Some (CHR 0x0D)
      else if e = CHR ''t'' then Some (CHR 0x09)
      else None)\<close>

definition code_of_hex :: "char \<Rightarrow> char \<Rightarrow> char \<Rightarrow> char \<Rightarrow> nat option" where
  "code_of_hex h1 h2 h3 h4 =
     (case (hex_value h1, hex_value h2, hex_value h3, hex_value h4) of
        (Some a, Some b, Some c, Some d) \<Rightarrow> Some (((a * 16 + b) * 16 + c) * 16 + d)
      | _ \<Rightarrow> None)"

fun str_body :: "string \<Rightarrow> (string \<times> string) option" where
  \<open>str_body [] = None\<close>
| \<open>str_body (c # cs) =
     (if c = CHR 0x22 then Some ([], cs)
      else if c = CHR 0x5C then
        (case cs of
           [] \<Rightarrow> None
         | e # es \<Rightarrow>
             if e = CHR ''u'' then
               (case es of
                  h1 # h2 # h3 # h4 # rest \<Rightarrow>
                    (case code_of_hex h1 h2 h3 h4 of
                       None \<Rightarrow> None
                     | Some n \<Rightarrow> map_option (\<lambda>(s, r). (utf8_of_code n @ s, r)) (str_body rest))
                | _ \<Rightarrow> None)
             else
               (case unescape e of
                  None \<Rightarrow> None
                | Some ch \<Rightarrow> map_option (\<lambda>(s, r). (ch # s, r)) (str_body es)))
      else if (of_char c :: nat) < 32 then None
      else map_option (\<lambda>(s, r). (c # s, r)) (str_body cs))\<close>

definition is_digit :: "char \<Rightarrow> bool" where
  "is_digit c = (48 \<le> (of_char c :: nat) \<and> (of_char c :: nat) \<le> 57)"

text \<open>The parts of a number: each scanner returns what it read and the rest.\<close>

definition scan_int :: "string \<Rightarrow> (string \<times> string) option" where
  "scan_int s =
     (case s of
        [] \<Rightarrow> None
      | c # cs \<Rightarrow>
          if c = CHR ''0'' then Some ([c], cs)
          else if is_digit c then Some (c # takeWhile is_digit cs, dropWhile is_digit cs)
          else None)"

definition scan_digits :: "string \<Rightarrow> (string \<times> string) option" where
  "scan_digits s =
     (if takeWhile is_digit s = [] then None
      else Some (takeWhile is_digit s, dropWhile is_digit s))"

definition scan_frac :: "string \<Rightarrow> (string \<times> string) option" where
  "scan_frac s =
     (case s of
        c # cs \<Rightarrow>
          if c = CHR ''.'' then map_option (\<lambda>(d, r). (c # d, r)) (scan_digits cs)
          else Some ([], s)
      | [] \<Rightarrow> Some ([], s))"

definition scan_exp :: "string \<Rightarrow> (string \<times> string) option" where
  "scan_exp s =
     (case s of
        c # cs \<Rightarrow>
          if c = CHR ''e'' \<or> c = CHR ''E'' then
            (case cs of
               g # gs \<Rightarrow>
                 if g = CHR ''+'' \<or> g = CHR ''-''
                 then map_option (\<lambda>(d, r). (c # g # d, r)) (scan_digits gs)
                 else map_option (\<lambda>(d, r). (c # d, r)) (scan_digits cs)
             | [] \<Rightarrow> None)
          else Some ([], s)
      | [] \<Rightarrow> Some ([], s))"

definition scan_number :: "string \<Rightarrow> (string \<times> string) option" where
  "scan_number s =
     (let (sign, s1) = (case s of c # cs \<Rightarrow> if c = CHR ''-'' then ([c], cs) else ([], s) | [] \<Rightarrow> ([], s))
      in case scan_int s1 of
           None \<Rightarrow> None
         | Some (i, s2) \<Rightarrow>
             (case scan_frac s2 of
                None \<Rightarrow> None
              | Some (f, s3) \<Rightarrow>
                  (case scan_exp s3 of
                     None \<Rightarrow> None
                   | Some (e, s4) \<Rightarrow> Some (sign @ i @ f @ e, s4))))"

definition literal :: "string \<Rightarrow> string \<Rightarrow> string option" where
  "literal word s = (if take (length word) s = word then Some (drop (length word) s) else None)"

text \<open>A key that is written twice keeps its place and takes the later value.\<close>

definition obj_put :: "string \<Rightarrow> json \<Rightarrow> (string \<times> json) list \<Rightarrow> (string \<times> json) list" where
  "obj_put k v ms =
     (if k \<in> fst ` set ms then map (\<lambda>m. if fst m = k then (k, v) else m) ms else ms @ [(k, v)])"

definition obj_of :: "(string \<times> json) list \<Rightarrow> (string \<times> json) list" where
  "obj_of ms = foldl (\<lambda>acc m. obj_put (fst m) (snd m) acc) [] ms"

fun parse_value :: "nat \<Rightarrow> string \<Rightarrow> (json \<times> string) option"
and parse_elements :: "nat \<Rightarrow> string \<Rightarrow> (json list \<times> string) option"
and parse_members :: "nat \<Rightarrow> string \<Rightarrow> ((string \<times> json) list \<times> string) option" where
  \<open>parse_value 0 s = None\<close>
| \<open>parse_value (Suc n) s =
     (case skip_ws s of
        [] \<Rightarrow> None
      | c # cs \<Rightarrow>
          if c = CHR ''{'' then
            (case skip_ws cs of
               [] \<Rightarrow> None
             | d # ds \<Rightarrow>
                 if d = CHR ''}'' then Some (JObj [], ds)
                 else map_option (\<lambda>(ms, r). (JObj (obj_of ms), r)) (parse_members n cs))
          else if c = CHR ''['' then
            (case skip_ws cs of
               [] \<Rightarrow> None
             | d # ds \<Rightarrow>
                 if d = CHR '']'' then Some (JArr [], ds)
                 else map_option (\<lambda>(vs, r). (JArr vs, r)) (parse_elements n cs))
          else if c = CHR 0x22 then map_option (\<lambda>(t, r). (JStr t, r)) (str_body cs)
          else if c = CHR ''t'' then map_option (\<lambda>r. (JBool True, r)) (literal ''true'' (c # cs))
          else if c = CHR ''f'' then map_option (\<lambda>r. (JBool False, r)) (literal ''false'' (c # cs))
          else if c = CHR ''n'' then map_option (\<lambda>r. (JNull, r)) (literal ''null'' (c # cs))
          else map_option (\<lambda>(lit, r). (JNum lit, r)) (scan_number (c # cs)))\<close>
| \<open>parse_elements 0 s = None\<close>
| \<open>parse_elements (Suc n) s =
     (case parse_value n s of
        None \<Rightarrow> None
      | Some (v, r) \<Rightarrow>
          (case skip_ws r of
             [] \<Rightarrow> None
           | c # cs \<Rightarrow>
               if c = CHR '','' then map_option (\<lambda>(vs, r'). (v # vs, r')) (parse_elements n cs)
               else if c = CHR '']'' then Some ([v], cs)
               else None))\<close>
| \<open>parse_members 0 s = None\<close>
| \<open>parse_members (Suc n) s =
     (case skip_ws s of
        [] \<Rightarrow> None
      | q # qs \<Rightarrow>
          if q \<noteq> CHR 0x22 then None
          else
            (case str_body qs of
               None \<Rightarrow> None
             | Some (k, r) \<Rightarrow>
                 (case skip_ws r of
                    [] \<Rightarrow> None
                  | c # cs \<Rightarrow>
                      if c \<noteq> CHR '':'' then None
                      else
                        (case parse_value n cs of
                           None \<Rightarrow> None
                         | Some (v, r') \<Rightarrow>
                             (case skip_ws r' of
                                [] \<Rightarrow> None
                              | d # ds \<Rightarrow>
                                  if d = CHR '','' then
                                    map_option (\<lambda>(ms, r''). ((k, v) # ms, r'')) (parse_members n ds)
                                  else if d = CHR ''}'' then Some ([(k, v)], ds)
                                  else None)))))\<close>











section \<open>Example worlds\<close>

definition empty_world :: world where
  "empty_world = \<lparr>users = [], posts = [], stories = [], interactions = [], notifications = [], rateLimits = [], topic = [], sockets = [], outages = []\<rparr>"

definition a_comment :: interaction where
  "a_comment = \<lparr>interactionId = ''i1'', i_type = ''comment'', i_userId = ''u1'',
                 i_contentId = ''p1'', i_content = Some ''hello'', i_parentId = None, i_timestamp = 5\<rparr>"

text \<open>A post with one comment.\<close>

definition one_comment_world :: world where
  "one_comment_world = \<lparr>users = [],
     posts = [\<lparr>postId = ''p1'', p_userId = Some ''u0'', likesCount = Some 0,
              commentsCount = Some 1, sharesCount = Some 0, p_timestamp = Some 1\<rparr>],
     stories = [], interactions = [a_comment], notifications = [], rateLimits = [],
     topic = [], sockets = [], outages = []\<rparr>"

text \<open>The same world, where the second call to the store fails.\<close>

definition comment_world :: world where
  "comment_world = one_comment_world\<lparr>outages := [False, True]\<rparr>"

text \<open>A reply of the user u2 to the comment \<open>i1\<close> on the post \<open>p1\<close>.\<close>

definition hello :: interactionData where
  "hello = \<lparr>d_interactionId = None, d_type = ''comment'', d_userId = ''u2'', d_contentId = ''p1'',
            d_content = Some ''hello'', d_parentId = Some ''i1''\<rparr>"

text \<open>A post whose comment counter is 0 while the ledger holds a comment on it.\<close>

definition zero_world :: world where
  "zero_world = \<lparr>users = [], posts = [\<lparr>postId = ''p1'', p_userId = Some ''u0'', likesCount = Some 0,
                              commentsCount = Some 0, sharesCount = Some 0, p_timestamp = Some 1\<rparr>],
                  stories = [], interactions = [a_comment], notifications = [], rateLimits = [], topic = [], sockets = [], outages = []\<rparr>"

definition session :: "op list" where
  "session = [Like ''p1'' ''u1'' ''i1'' 1,
              AddComment ''u2'' ''p1'' (Some ''nice'') (Some ''c0'') ''i2'' 2,
              AddComment ''u1'' ''p1'' (Some ''first'') None ''i4'' 3,
              Like ''p1'' ''u2'' ''i3'' 4,
              Unlike ''p1'' ''u1'',
              AddComment ''u1'' ''p1'' (Some ''thanks'') (Some ''i2'') ''i5'' 5,
              Remove ''i2'' ''u2'']"

definition alice :: user where
  "alice = \<lparr>userId = ''u1'', username = Some ''alice'', email = Some ''alice@example.org'',
             passwordHash = Some (Some ''hash-of-secret''), profilePicture = None, bio = Some [],
             following = Some (Array []), followers = Some (Array []), createdAt = Some 1,
             updatedAt = Some 1\<rparr>"

definition bob_data :: userData where
  "bob_data = \<lparr>ud_userId = None, ud_username = Some ''bob'', ud_email = Some ''bob@example.org'',
               ud_password = Some ''secret'', ud_profilePicture = None, ud_bio = None,
               ud_following = None, ud_followers = None\<rparr>"

definition alice_world :: world where
  "alice_world = \<lparr>users = [alice], posts = [], stories = [], interactions = [], notifications = [], rateLimits = [], topic = [], sockets = [], outages = []\<rparr>"

definition five_per_minute :: options where
  "five_per_minute = \<lparr>maxRequests = 5, windowSizeInSeconds = 60, identifierKey = ''ip''\<rparr>"

definition a_request :: request where
  "a_request = \<lparr>ip = Some ''10.0.0.1'', remoteAddress = ''10.0.0.1'', req_user = None,
                 req_method = ''GET'', baseUrl = ''/api/posts'', path = ''/timeline''\<rparr>"

text \<open>The window of this client started at second 0 and was used up.\<close>

definition stale_world :: world where
  "stale_world = \<lparr>users = [], posts = [], stories = [], interactions = [], notifications = [],
     rateLimits = [\<lparr>r_id = ''10.0.0.1:GET/api/posts/timeline'', r_count = 5, r_timestamp = 0,
                    r_expiryTime = 120\<rparr>],
     topic = [], sockets = [], outages = []\<rparr>"

definition post_at :: "string \<Rightarrow> string \<Rightarrow> timestamp \<Rightarrow> post" where
  "post_at pid uid t = \<lparr>postId = pid, p_userId = Some uid, likesCount = Some 0,
     commentsCount = Some 0, sharesCount = Some 0, p_timestamp = Some t\<rparr>"

definition timeline_world :: world where
  "timeline_world = \<lparr>users = [],
     posts = [post_at ''a'' ''u1'' 10, post_at ''b'' ''u1'' 8, post_at ''c'' ''u1'' 5,
              post_at ''d'' ''u2'' 9, post_at ''e'' ''u2'' 7],
     stories = [], interactions = [], notifications = [], rateLimits = [], topic = [], sockets = [], outages = []\<rparr>"

definition bob :: user where
  "bob = \<lparr>userId = ''u2'', username = Some ''bob'', email = Some ''bob@example.org'',
           passwordHash = Some (Some ''hash-of-hunter2''), profilePicture = None, bio = Some [],
           following = Some (Array []), followers = Some (Array []), createdAt = Some 2,
           updatedAt = Some 2\<rparr>"

text \<open>The users u1 and u2, as \<open>User.create\<close> stores them.\<close>

definition two_users_world :: world where
  "two_users_world = \<lparr>users = [alice, bob], posts = [], stories = [], interactions = [],
     notifications = [], rateLimits = [], topic = [], sockets = [], outages = []\<rparr>"

definition bobs_comment :: interaction where
  "bobs_comment = \<lparr>interactionId = ''c1'', i_type = ''comment'', i_userId = ''u2'',
                    i_contentId = ''p1'', i_content = Some ''first'', i_parentId = None, i_timestamp = 4\<rparr>"

definition reply_world :: world where
  "reply_world = \<lparr>users = [alice, bob],
     posts = [\<lparr>postId = ''p1'', p_userId = Some ''u1'', likesCount = Some 0,
              commentsCount = Some 1, sharesCount = Some 0, p_timestamp = Some 3\<rparr>],
     stories = [], interactions = [bobs_comment], notifications = [], rateLimits = [],
     topic = [], sockets = [], outages = []\<rparr>"

definition reply_to_bob :: notificationMessage where
  "reply_to_bob = \<lparr>n_type = ''reply'', senderId = ''u1'', recipientId = Some ''u2'',
     n_contentId = ''c1'', n_contentType = ''comment'',
     n_message = ''alice replied to your comment'', n_timestamp = 7\<rparr>"


section \<open>Properties of the tables\<close>

lemma tbl_get_put: "tbl_get key k (tbl_put key r rows) = (if k = key r then Some r else tbl_get key k rows)"
  by (induction rows) (auto simp: tbl_get_def tbl_put_def tbl_delete_def)

lemma tbl_get_delete: "tbl_get key k (tbl_delete key k' rows) = (if k = k' then None else tbl_get key k rows)"
  by (induction rows) (auto simp: tbl_get_def tbl_delete_def)

lemma tbl_get_key: "tbl_get key k rows = Some r \<Longrightarrow> key r = k"
  by (induction rows) (auto simp: tbl_get_def split: if_splits)

lemma tbl_get_mem: "tbl_get key k rows = Some r \<Longrightarrow> r \<in> set rows"
  by (induction rows) (auto simp: tbl_get_def split: if_splits)

lemma tbl_get_None: "tbl_get key k rows = None \<longleftrightarrow> k \<notin> key ` set rows"
  by (induction rows) (auto simp: tbl_get_def)

lemma tbl_delete_absent: "tbl_get key k rows = None \<Longrightarrow> tbl_delete key k rows = rows"
  by (induction rows) (auto simp: tbl_get_def tbl_delete_def split: if_splits)

lemma distinct_tbl_delete: "distinct (map key rows) \<Longrightarrow> distinct (map key (tbl_delete key k rows))"
  by (induction rows) (auto simp: tbl_delete_def)

lemma keys_tbl_delete: "key ` set (tbl_delete key k rows) = key ` set rows - {k}"
  by (auto simp: tbl_delete_def)

lemma distinct_tbl_put: "distinct (map key rows) \<Longrightarrow> distinct (map key (tbl_put key r rows))"
  using keys_tbl_delete[of key "key r" rows]
  by (auto simp: tbl_put_def distinct_tbl_delete)

lemma postId_the_post: "postId (the_post ps pid) = pid"
  by (auto simp: the_post_def new_post_def dest: tbl_get_key split: option.splits)

lemma the_post_add_likes: "the_post (add_likesCount pid n ps) c =
   (if c = pid then (the_post ps pid)\<lparr>likesCount := add_opt (likesCount (the_post ps pid)) n\<rparr> else the_post ps c)"
  by (simp add: the_post_def add_likesCount_def tbl_get_put postId_the_post[unfolded the_post_def])

lemma the_post_add_comments: "the_post (add_commentsCount pid n ps) c =
   (if c = pid then (the_post ps pid)\<lparr>commentsCount := add_opt (commentsCount (the_post ps pid)) n\<rparr> else the_post ps c)"
  by (simp add: the_post_def add_commentsCount_def tbl_get_put postId_the_post[unfolded the_post_def])

lemma rows_of_put_fresh:
  "tbl_get interactionId (interactionId r) rows = None \<Longrightarrow>
   int (length (rows_of k c (tbl_put interactionId r rows))) =
   int (length (rows_of k c rows)) + (if i_type r = k \<and> i_contentId r = c then 1 else 0)"
  by (simp add: tbl_put_def tbl_delete_absent rows_of_def)

lemma rows_of_delete:
  "distinct (map interactionId rows) \<Longrightarrow> tbl_get interactionId iid rows = Some i \<Longrightarrow>
   int (length (rows_of k c (tbl_delete interactionId iid rows))) =
   int (length (rows_of k c rows)) - (if i_type i = k \<and> i_contentId i = c then 1 else 0)"
proof (induction rows)
  case Nil
  then show ?case by (simp add: tbl_get_def)
next
  case (Cons r rows)
  show ?case
  proof (cases "interactionId r = iid")
    case True
    with Cons.prems have ri: "r = i" and "iid \<notin> interactionId ` set rows"
      by (auto simp: tbl_get_def)
    then have "tbl_get interactionId iid rows = None" by (simp add: tbl_get_None)
    then have "tbl_delete interactionId iid rows = rows" by (rule tbl_delete_absent)
    then have "tbl_delete interactionId iid (r # rows) = rows"
      using True by (simp add: tbl_delete_def)
    then show ?thesis using ri by (simp add: rows_of_def)
  next
    case False
    with Cons.prems have "tbl_get interactionId iid rows = Some i" "distinct (map interactionId rows)"
      by (auto simp: tbl_get_def)
    from Cons.IH[OF this(2) this(1)]
    have ih: "int (length (rows_of k c (tbl_delete interactionId iid rows))) =
              int (length (rows_of k c rows)) - (if i_type i = k \<and> i_contentId i = c then 1 else 0)" .
    have a: "rows_of k c (tbl_delete interactionId iid (r # rows)) =
             rows_of k c [r] @ rows_of k c (tbl_delete interactionId iid rows)"
      using False by (simp add: tbl_delete_def rows_of_def)
    have b: "rows_of k c (r # rows) = rows_of k c [r] @ rows_of k c rows"
      by (simp add: rows_of_def)
    show ?thesis unfolding a b using ih by simp
  qed
qed

lemma store_call_up: "outages w = [] \<Longrightarrow> store_call f w = f w"
  by (simp add: store_call_def)

lemma read_likesCount_world: "outages w = [] \<Longrightarrow> snd (read_likesCount pid w) = w"
  by (simp add: read_likesCount_def Post_getById_def await_def store_call_up throw_def return_def split: option.splits)

lemma Post_like_world:
  "outages w = [] \<Longrightarrow>
   snd (Post_like pid uid uuid now w) =
   w\<lparr>posts := add_likesCount pid 1 (posts w),
     interactions := tbl_put interactionId
        \<lparr>interactionId = uuid, i_type = ''like'', i_userId = uid, i_contentId = pid,
         i_content = None, i_parentId = None, i_timestamp = now\<rparr> (interactions w)\<rparr>"
  by (simp add: Post_like_def Let_def await_def store_call_up read_likesCount_world)


text \<open>\<open>Post.unlike\<close> throws at its query and leaves the tables as they are.\<close>

lemma Post_unlike_throws:
  "fst (Post_unlike pid uid w) = Inl UpstreamUnavailable \<or>
   fst (Post_unlike pid uid w) = Inl (Error ''ValidationException'')"
  by (simp add: Post_unlike_def query_likes_def await_def store_call_def split: list.splits)

lemma Post_unlike_tables:
  "posts (snd (Post_unlike pid uid w)) = posts w \<and>
   interactions (snd (Post_unlike pid uid w)) = interactions w"
  by (simp add: Post_unlike_def query_likes_def await_def store_call_def split: list.splits)

lemma Post_unlike_world: "outages w = [] \<Longrightarrow> Post_unlike pid uid w = (Inl (Error ''ValidationException''), w)"
  by (simp add: Post_unlike_def query_likes_def await_def store_call_up)

lemma Interaction_create_world:
  "outages w = [] \<Longrightarrow> d_type d = ''comment'' \<Longrightarrow>
   snd (Interaction_create d uuid now w) =
   (if or_null (d_parentId d) = None \<or>
       tbl_get interactionId (or_else (d_interactionId d) uuid) (interactions w) \<noteq> None then w
    else w\<lparr>interactions := tbl_put interactionId
                \<lparr>interactionId = or_else (d_interactionId d) uuid, i_type = ''comment'',
                 i_userId = d_userId d, i_contentId = d_contentId d,
                 i_content = Some (or_else (d_content d) []),
                 i_parentId = Some (or_null (d_parentId d)),
                 i_timestamp = now\<rparr> (interactions w),
           posts := add_commentsCount (d_contentId d) 1 (posts w)\<rparr>)"
  by (simp add: Interaction_create_def Let_def put_new_interaction_def update_commentsCount_def
                await_def store_call_up return_def)

lemma Interaction_delete_world:
  "outages w = [] \<Longrightarrow>
   snd (Interaction_delete iid uid w) =
   (case tbl_get interactionId iid (interactions w) of
      None \<Rightarrow> w
    | Some i \<Rightarrow>
        if i_userId i \<noteq> uid then w
        else if i_type i = ''comment''
        then w\<lparr>interactions := tbl_delete interactionId iid (interactions w),
               posts := add_commentsCount (i_contentId i) (- 1) (posts w)\<rparr>
        else w\<lparr>interactions := tbl_delete interactionId iid (interactions w)\<rparr>)"
  by (simp add: Interaction_delete_def Interaction_getById_def delete_interaction_def
                update_commentsCount_def await_def store_call_up return_def throw_def
           split: option.splits)

lemma tbl_get_distinct:
  "distinct (map key rows) \<Longrightarrow> r \<in> set rows \<Longrightarrow> tbl_get key (key r) rows = Some r"
  by (induction rows) (auto simp: tbl_get_def)

lemma likeCount_add_likes:
  "likeCount (w\<lparr>posts := add_likesCount pid n (posts w), interactions := rows\<rparr>) c =
   likeCount w c + (if c = pid then n else 0)"
  by (simp add: likeCount_def the_post_add_likes add_opt_def split: option.splits)

lemma commentCount_add_likes:
  "commentCount (w\<lparr>posts := add_likesCount pid n (posts w), interactions := rows\<rparr>) c =
   commentCount w c"
  by (simp add: commentCount_def the_post_add_likes)

lemma commentCount_add_comments:
  "commentCount (w\<lparr>interactions := rows, posts := add_commentsCount pid n (posts w)\<rparr>) c =
   commentCount w c + (if c = pid then n else 0)"
  by (simp add: commentCount_def the_post_add_comments add_opt_def split: option.splits)

lemma likeCount_add_comments:
  "likeCount (w\<lparr>interactions := rows, posts := add_commentsCount pid n (posts w)\<rparr>) c =
   likeCount w c"
  by (simp add: likeCount_def the_post_add_comments)

lemma counts_interactions_only:
  "likeCount (w\<lparr>interactions := rows\<rparr>) c = likeCount w c"
  "commentCount (w\<lparr>interactions := rows\<rparr>) c = commentCount w c"
  by (simp_all add: likeCount_def commentCount_def)

lemma step_well_formed:
  assumes "well_formed w"
  shows "well_formed (apply_op x w)"
proof -
  from assms have up: "outages w = []" and d: "distinct (map interactionId (interactions w))"
    by (simp_all add: well_formed_def)
  show ?thesis
  proof (cases x)
    case (Like pid uid uuid now)
    then show ?thesis using up d
      by (simp add: Post_like_world well_formed_def distinct_tbl_put)
  next
    case (Unlike pid uid)
    then show ?thesis using up d
      by (simp add: Post_unlike_world well_formed_def)
  next
    case (AddComment uid cid content parent uuid now)
    then show ?thesis using up d
      by (simp add: Interaction_create_world well_formed_def distinct_tbl_put)
  next
    case (Remove iid uid)
    then show ?thesis using up d
      by (simp add: Interaction_delete_world well_formed_def distinct_tbl_delete split: option.splits)
  qed
qed

lemma step_consistent:
  assumes wf: "well_formed w" and ok: "step_ok w x" and c: "consistent w"
  shows "consistent (apply_op x w)"
proof -
  from wf have up: "outages w = []" and d: "distinct (map interactionId (interactions w))"
    by (simp_all add: well_formed_def)
  show ?thesis
  proof (cases x)
    case (Like pid uid uuid now)
    with ok have fresh: "tbl_get interactionId uuid (interactions w) = None" by simp
    show ?thesis using c
      by (simp add: Like Post_like_world[OF up] consistent_def likeCount_add_likes
                    commentCount_add_likes rows_of_put_fresh fresh)
  next
    case (Unlike pid uid)
    show ?thesis using c by (simp add: Unlike Post_unlike_world[OF up])
  next
    case (AddComment uid cid content parent uuid now)
    show ?thesis using c
      by (simp add: AddComment Interaction_create_world[OF up] consistent_def likeCount_add_comments
                    commentCount_add_comments rows_of_put_fresh)
  next
    case (Remove iid uid)
    show ?thesis
    proof (cases "tbl_get interactionId iid (interactions w)")
      case None
      then show ?thesis using c by (simp add: Remove Interaction_delete_world[OF up])
    next
      case (Some i)
      with ok Remove have nl: "i_type i \<noteq> ''like''" by simp
      show ?thesis using c nl
        by (simp add: Remove Interaction_delete_world[OF up] Some consistent_def likeCount_add_comments
                      commentCount_add_comments counts_interactions_only rows_of_delete[OF d Some])
    qed
  qed
qed

lemmas eval_defs = Interaction_create_def Interaction_delete_def Interaction_getById_def
  delete_interaction_def Post_like_def Post_unlike_def Post_getById_def read_likesCount_def
  query_likes_def likes_by_def Let_def await_def return_def throw_def
  put_new_interaction_def update_commentsCount_def store_call_def tbl_get_def tbl_put_def
  tbl_delete_def or_else_def or_null_def rows_of_def commentCount_def likeCount_def the_post_def new_post_def
  add_likesCount_def add_commentsCount_def add_opt_def

section \<open>The interaction ledger\<close>

text \<open>
  Claim C1 asks that \<open>Interaction.create\<close> for a comment appends the row and increments
  the comment counter as one atomic unit. The function makes two separate calls to the
  store, \<open>put\<close> and then \<open>update\<close>. For a reply, a comment with a \<open>parentId\<close>, the
  store accepts the \<open>put\<close>; when the second call then fails, the function throws, the row
  stays in the ledger and the counter of the content item is not incremented. (A comment
  without a \<open>parentId\<close> is refused at the \<open>put\<close>, and nothing is written.)
\<close>

theorem Interaction_create_partial_write:
  "commentCount comment_world ''p1'' = 1 \<and>
   map interactionId (rows_of ''comment'' ''p1'' (interactions comment_world)) = [''i1''] \<and>
   fst (Interaction_create hello ''i2'' 5 comment_world) = Inl UpstreamUnavailable \<and>
   map interactionId (rows_of ''comment'' ''p1''
     (interactions (snd (Interaction_create hello ''i2'' 5 comment_world)))) = [''i1'', ''i2''] \<and>
   commentCount (snd (Interaction_create hello ''i2'' 5 comment_world)) ''p1'' = 1 \<and>
   Interaction_create (hello\<lparr>d_parentId := None\<rparr>) ''i2'' 5 comment_world =
     (Inl (Error ''ValidationException''), comment_world\<lparr>outages := [True]\<rparr>)"
  by (simp add: Interaction_create_def hello_def comment_world_def one_comment_world_def a_comment_def
        Let_def await_def
        put_new_interaction_def update_commentsCount_def store_call_def tbl_get_def tbl_put_def
        tbl_delete_def or_else_def or_null_def rows_of_def commentCount_def the_post_def new_post_def)

text \<open>
  \<open>Interaction.delete\<close> removes any row of the ledger that belongs to the caller, and
  it decrements a counter only for a comment: removing a like through it leaves the like
  counter one above the number of likes in the log. And when the second store call of the
  creation of a reply fails, the reply is in the log and the counter has not moved.
\<close>

theorem counters_drift_counterexample:
  "consistent empty_world \<and>
   \<not> consistent (run empty_world [Like ''p1'' ''u1'' ''i1'' 1, Remove ''i1'' ''u1'']) \<and>
   consistent comment_world \<and>
   \<not> consistent (run comment_world [AddComment ''u2'' ''p1'' (Some ''hello'') (Some ''i1'') ''i2'' 5])"
proof -
  have e: "consistent empty_world" by (simp add: consistent_def empty_world_def eval_defs)
  have c: "consistent comment_world"
    by (simp add: consistent_def comment_world_def one_comment_world_def a_comment_def eval_defs)
  have "likeCount (run empty_world [Like ''p1'' ''u1'' ''i1'' 1, Remove ''i1'' ''u1'']) ''p1'' = 1"
    by (simp add: empty_world_def eval_defs)
  moreover have "rows_of ''like'' ''p1'' (interactions (run empty_world [Like ''p1'' ''u1'' ''i1'' 1, Remove ''i1'' ''u1''])) = []"
    by (simp add: empty_world_def eval_defs)
  ultimately have 1: "\<not> consistent (run empty_world [Like ''p1'' ''u1'' ''i1'' 1, Remove ''i1'' ''u1''])"
    unfolding consistent_def by (metis int_ops(1) list.size(3) zero_neq_one)
  let ?w = "run comment_world [AddComment ''u2'' ''p1'' (Some ''hello'') (Some ''i1'') ''i2'' 5]"
  have cc: "commentCount ?w ''p1'' = 1"
    by (simp add: comment_world_def one_comment_world_def a_comment_def eval_defs)
  have rr: "length (rows_of ''comment'' ''p1'' (interactions ?w)) = 2"
    by (simp add: comment_world_def one_comment_world_def a_comment_def eval_defs)
  have 2: "\<not> consistent ?w"
  proof
    assume "consistent ?w"
    then have "commentCount ?w ''p1'' = int (length (rows_of ''comment'' ''p1'' (interactions ?w)))"
      unfolding consistent_def by blast
    then show False unfolding cc rr by simp
  qed
  from e c 1 2 show ?thesis by blast
qed

text \<open>
  Claim C2: starting from a world where the counters match the log, after every sequence
  of \<open>Post.like\<close>, \<open>Post.unlike\<close>, comment creation and
  \<open>Interaction.delete\<close>, the like counter of every content item is the number of like
  rows targeting it and the comment counter is the number of comment rows targeting it.
  This holds when the store is there at every call, every like gets an identifier that is
  new to the ledger, and \<open>Interaction.delete\<close> is not aimed at a like. In such a run
  \<open>Post.unlike\<close> removes nothing, its query being refused, and a comment without a
  parent is refused at the \<open>put\<close>: neither moves a counter or a row.
\<close>

theorem counters_match_log:
  assumes "well_formed w" and "consistent w" and "admissible w ops"
  shows "consistent (run w ops)"
  using assms
proof (induction ops arbitrary: w)
  case Nil
  then show ?case by simp
next
  case (Cons x xs)
  from Cons.prems have ok: "step_ok w x" and rest: "admissible (apply_op x w) xs"
    by simp_all
  have "well_formed (apply_op x w)"
    using Cons.prems(1) by (rule step_well_formed)
  moreover have "consistent (apply_op x w)"
    using Cons.prems(1) ok Cons.prems(2) by (rule step_consistent)
  ultimately have "consistent (run (apply_op x w) xs)"
    using rest by (rule Cons.IH)
  then show ?case by simp
qed

text \<open>
  A session on the post \<open>p1\<close>: two likes, an unlike that is refused, two replies of
  which one is removed again, and a comment without a parent that is refused. At the end
  the post has two likes and one comment, in the ledger and in the counters.
\<close>

theorem counters_match_log_witness:
  "well_formed empty_world \<and> consistent empty_world \<and> admissible empty_world session \<and>
   consistent (run empty_world session) \<and>
   map interactionId (interactions (run empty_world session)) = [''i1'', ''i3'', ''i5''] \<and>
   likeCount (run empty_world session) ''p1'' = 2 \<and>
   commentCount (run empty_world session) ''p1'' = 1"
proof -
  have a: "well_formed empty_world" by (simp add: well_formed_def empty_world_def)
  have b: "consistent empty_world" by (simp add: consistent_def empty_world_def eval_defs)
  have c: "admissible empty_world session" by (simp add: session_def empty_world_def eval_defs)
  have d: "map interactionId (interactions (run empty_world session)) = [''i1'', ''i3'', ''i5'']"
    by (simp add: session_def empty_world_def eval_defs)
  have e: "likeCount (run empty_world session) ''p1'' = 2"
    by (simp add: session_def empty_world_def eval_defs)
  have f: "commentCount (run empty_world session) ''p1'' = 1"
    by (simp add: session_def empty_world_def eval_defs)
  from counters_match_log[OF a b c] a b c d e f show ?thesis by simp
qed

text \<open>
  After the owner has deleted a post, the comments on it are still in the ledger; removing
  one takes the comment counter of the post from nothing to -1. The same happens from a
  stored counter of 0.
\<close>

theorem Interaction_delete_below_zero:
  "consistent one_comment_world \<and>
   fst (Post_delete ''p1'' ''u0'' one_comment_world) = Inr True \<and>
   fst (Interaction_delete ''i1'' ''u1'' (snd (Post_delete ''p1'' ''u0'' one_comment_world))) = Inr True \<and>
   commentCount (snd (Interaction_delete ''i1'' ''u1'' (snd (Post_delete ''p1'' ''u0'' one_comment_world)))) ''p1'' = - 1 \<and>
   commentCount zero_world ''p1'' = 0 \<and>
   fst (Interaction_delete ''i1'' ''u1'' zero_world) = Inr True \<and>
   commentCount (snd (Interaction_delete ''i1'' ''u1'' zero_world)) ''p1'' = - 1"
proof -
  have "consistent one_comment_world"
    by (simp add: consistent_def one_comment_world_def a_comment_def eval_defs)
  moreover have "fst (Post_delete ''p1'' ''u0'' one_comment_world) = Inr True \<and>
   fst (Interaction_delete ''i1'' ''u1'' (snd (Post_delete ''p1'' ''u0'' one_comment_world))) = Inr True \<and>
   commentCount (snd (Interaction_delete ''i1'' ''u1'' (snd (Post_delete ''p1'' ''u0'' one_comment_world)))) ''p1'' = - 1"
    by (simp add: Post_delete_def one_comment_world_def a_comment_def eval_defs)
  moreover have "commentCount zero_world ''p1'' = 0 \<and>
   fst (Interaction_delete ''i1'' ''u1'' zero_world) = Inr True \<and>
   commentCount (snd (Interaction_delete ''i1'' ''u1'' zero_world)) ''p1'' = - 1"
    by (simp add: zero_world_def a_comment_def eval_defs)
  ultimately show ?thesis by blast
qed

text \<open>
  Claim C4: \<open>Interaction.delete\<close> first loads the interaction and fails, writing nothing,
  when the stored actor differs from the caller. When it succeeds on a comment, the row is
  gone and the comment counter of the owning content item is exactly one less than before
  (there is no floor at 0).
\<close>

theorem Interaction_delete_checks_actor_then_subtracts:
  assumes "outages w = []" and "tbl_get interactionId iid (interactions w) = Some i"
  shows "(i_userId i \<noteq> uid \<longrightarrow>
            Interaction_delete iid uid w = (Inl (Error ''Unauthorized to delete this interaction''), w)) \<and>
         (i_userId i = uid \<and> i_type i = ''comment'' \<longrightarrow>
            fst (Interaction_delete iid uid w) = Inr True \<and>
            tbl_get interactionId iid (interactions (snd (Interaction_delete iid uid w))) = None \<and>
            commentCount (snd (Interaction_delete iid uid w)) (i_contentId i) =
              commentCount w (i_contentId i) - 1)"
  using assms
  by (simp add: Interaction_delete_def Interaction_getById_def delete_interaction_def
        update_commentsCount_def await_def store_call_up return_def throw_def
        tbl_get_delete commentCount_def the_post_add_comments add_opt_def
      split: option.splits)

theorem Interaction_delete_checks_actor_then_subtracts_witness:
  "outages zero_world = [] \<and> tbl_get interactionId ''i1'' (interactions zero_world) = Some a_comment \<and>
   i_userId a_comment \<noteq> ''u2'' \<and>
   Interaction_delete ''i1'' ''u2'' zero_world = (Inl (Error ''Unauthorized to delete this interaction''), zero_world) \<and>
   i_userId a_comment = ''u1'' \<and> i_type a_comment = ''comment'' \<and>
   fst (Interaction_delete ''i1'' ''u1'' zero_world) = Inr True \<and>
   commentCount (snd (Interaction_delete ''i1'' ''u1'' zero_world)) (i_contentId a_comment) =
     commentCount zero_world (i_contentId a_comment) - 1"
proof -
  have a: "outages zero_world = []" by (simp add: zero_world_def)
  have b: "tbl_get interactionId ''i1'' (interactions zero_world) = Some a_comment"
    by (simp add: zero_world_def a_comment_def tbl_get_def)
  have c: "i_userId a_comment \<noteq> ''u2''" "i_userId a_comment = ''u1''" "i_type a_comment = ''comment''"
    by (simp_all add: a_comment_def)
  from Interaction_delete_checks_actor_then_subtracts[OF a b, of "''u2''"]
       Interaction_delete_checks_actor_then_subtracts[OF a b, of "''u1''"] a b c
  show ?thesis by simp
qed

text \<open>
  \<open>Post.like\<close> does not look for an earlier like of the same user: from the empty world,
  two calls for the same user and post leave two like rows and a counter of 2.
\<close>

theorem Post_like_twice_counterexample:
  "length (likes_by ''u1'' ''p1'' (interactions (run empty_world [Like ''p1'' ''u1'' ''i1'' 1]))) = 1 \<and>
   likeCount (run empty_world [Like ''p1'' ''u1'' ''i1'' 1]) ''p1'' = 1 \<and>
   length (likes_by ''u1'' ''p1'' (interactions (run empty_world [Like ''p1'' ''u1'' ''i1'' 1, Like ''p1'' ''u1'' ''i2'' 2]))) = 2 \<and>
   likeCount (run empty_world [Like ''p1'' ''u1'' ''i1'' 1, Like ''p1'' ''u1'' ''i2'' 2]) ''p1'' = 2"
  by (simp add: empty_world_def eval_defs)

text \<open>
  Claim C5: \<open>Post.like\<close> makes no existence check. Each call that gets a new
  identifier appends one more like row and adds one to the like counter, so after two
  calls for the same user and content item there are two more like rows for that pair and
  the counter is two higher.
\<close>

theorem Post_like_appends_every_time:
  assumes "outages w = []"
    and "tbl_get interactionId id1 (interactions w) = None"
    and "tbl_get interactionId id2 (interactions w) = None"
    and "id1 \<noteq> id2"
  shows "length (likes_by uid pid (interactions (run w [Like pid uid id1 t1, Like pid uid id2 t2]))) =
           length (likes_by uid pid (interactions w)) + 2 \<and>
         likeCount (run w [Like pid uid id1 t1, Like pid uid id2 t2]) pid = likeCount w pid + 2"
proof -
  let ?i1 = "\<lparr>interactionId = id1, i_type = ''like'', i_userId = uid, i_contentId = pid,
         i_content = None, i_parentId = None, i_timestamp = t1\<rparr>"
  let ?w1 = "snd (Post_like pid uid id1 t1 w)"
  have w1: "?w1 = w\<lparr>posts := add_likesCount pid 1 (posts w),
                     interactions := tbl_put interactionId ?i1 (interactions w)\<rparr>"
    using assms(1) by (simp add: Post_like_world)
  have up1: "outages ?w1 = []" using assms(1) by (simp add: Post_like_world)
  have fresh2: "tbl_get interactionId id2 (interactions ?w1) = None"
    using assms by (simp add: Post_like_world tbl_get_put)
  have r1: "interactions ?w1 = interactions w @ [?i1]"
    using assms(1,2) by (simp add: Post_like_world tbl_put_def tbl_delete_absent)
  have r2: "interactions (snd (Post_like pid uid id2 t2 ?w1)) = interactions ?w1 @
      [\<lparr>interactionId = id2, i_type = ''like'', i_userId = uid, i_contentId = pid,
         i_content = None, i_parentId = None, i_timestamp = t2\<rparr>]"
    using fresh2 by (simp add: Post_like_world[OF up1] tbl_put_def tbl_delete_absent)
  have c1: "likeCount ?w1 pid = likeCount w pid + 1"
    using assms(1) by (simp add: Post_like_world likeCount_add_likes)
  have c2: "likeCount (snd (Post_like pid uid id2 t2 ?w1)) pid = likeCount ?w1 pid + 1"
    by (simp add: Post_like_world[OF up1] likeCount_add_likes)
  have "run w [Like pid uid id1 t1, Like pid uid id2 t2] = snd (Post_like pid uid id2 t2 ?w1)"
    by simp
  then show ?thesis using r1 r2 c1 c2 by (simp add: likes_by_def)
qed

theorem Post_like_appends_every_time_witness:
  "outages empty_world = [] \<and>
   tbl_get interactionId ''i1'' (interactions empty_world) = None \<and>
   tbl_get interactionId ''i2'' (interactions empty_world) = None \<and> ''i1'' \<noteq> ''i2'' \<and>
   length (likes_by ''u1'' ''p1'' (interactions (run empty_world [Like ''p1'' ''u1'' ''i1'' 1, Like ''p1'' ''u1'' ''i2'' 2]))) =
     length (likes_by ''u1'' ''p1'' (interactions empty_world)) + 2 \<and>
   likeCount (run empty_world [Like ''p1'' ''u1'' ''i1'' 1, Like ''p1'' ''u1'' ''i2'' 2]) ''p1'' =
     likeCount empty_world ''p1'' + 2"
proof -
  have a: "outages empty_world = []" by (simp add: empty_world_def)
  have b: "tbl_get interactionId ''i1'' (interactions empty_world) = None"
          "tbl_get interactionId ''i2'' (interactions empty_world) = None"
    by (simp_all add: empty_world_def tbl_get_def)
  have c: "''i1'' \<noteq> ''i2''" by simp
  from Post_like_appends_every_time[OF a b c, of "''u1''" "''p1''" 1 2] a b c
  show ?thesis by blast
qed

section \<open>Users and the follow graph\<close>

text \<open>
  A set of followers in the store, written by another client of the table, is read as the
  empty array.
\<close>

lemma getFollowers_of_set:
  assumes "outages w = []" and "tbl_get userId b (users w) = Some u"
    and "followers u = Some (StringSet s)"
  shows "fst (User_getFollowers b w) = Inr []"
  using assms
  by (simp add: User_getFollowers_def get_user_def await_def return_def store_call_up Array_from_def)

text \<open>
  Claim C3 says that after \<open>follow(a, b)\<close> the test \<open>isFollowing(a, b)\<close> is true and
  \<open>a\<close> is among the followers of \<open>b\<close>. \<open>User.followUser\<close> and
  \<open>User.unfollowUser\<close> throw a \<open>TypeError\<close> on every input, before any call to the
  store, and leave the world as it is: with the users u1 and u2 as \<open>User.create\<close>
  stores them, after \<open>followUser\<close> of u2 by u1 the test \<open>isFollowing\<close> still
  answers false and the followers of u2 are still none.
\<close>

theorem followUser_throws:
  "User_followUser a b w = (Inl (Error ''TypeError: dynamoDb.createSet is not a function''), w) \<and>
   User_unfollowUser a b w = (Inl (Error ''TypeError: dynamoDb.createSet is not a function''), w) \<and>
   fst (isFollowing ''u1'' ''u2'' two_users_world) = Inr False \<and>
   fst (isFollowing ''u1'' ''u2'' (snd (User_followUser ''u1'' ''u2'' two_users_world))) = Inr False \<and>
   fst (User_getFollowers ''u2'' (snd (User_followUser ''u1'' ''u2'' two_users_world))) = Inr []"
  by (simp add: User_followUser_def User_unfollowUser_def dynamoDb_createSet_def throw_def
        isFollowing_def User_getFollowing_def User_getFollowers_def get_user_def await_def return_def
        store_call_def tbl_get_def two_users_world_def alice_def bob_def Array_from_def)

text \<open>
  Claim C10: the user objects returned by \<open>User.create\<close>, \<open>User.getById\<close> and
  \<open>User.getByUsername\<close> have no \<open>passwordHash\<close> field; \<open>User.getByEmail\<close> returns the
  stored row as it is, password hash included.
\<close>

theorem passwordHash_removed:
  "(fst (User_create d uuid now hash w) = Inr u \<longrightarrow> passwordHash u = None) \<and>
   (fst (User_getById uid w) = Inr (Some u) \<longrightarrow> passwordHash u = None) \<and>
   (fst (User_getByUsername name w) = Inr (Some u) \<longrightarrow> passwordHash u = None) \<and>
   (fst (User_getByEmail e w) = Inr (Some u) \<longrightarrow> u \<in> set (users w) \<and> email u = Some e)"
proof -
  have 1: "fst (User_create d uuid now hash w) = Inr u \<longrightarrow> passwordHash u = None"
    by (auto simp: User_create_def Let_def await_def return_def delete_passwordHash_def
             split: prod.splits sum.splits)
  have 2: "fst (User_getById uid w) = Inr (Some u) \<longrightarrow> passwordHash u = None"
    by (auto simp: User_getById_def await_def return_def delete_passwordHash_def
             split: prod.splits sum.splits option.splits)
  have 3: "fst (User_getByUsername name w) = Inr (Some u) \<longrightarrow> passwordHash u = None"
    by (auto simp: User_getByUsername_def await_def return_def delete_passwordHash_def
             split: prod.splits sum.splits list.splits)
  have q: "\<And>r w'. query_email e w = (Inr r, w') \<Longrightarrow> r = filter (\<lambda>u. email u = Some e) (users w)"
    by (auto simp: query_email_def store_call_def split: list.splits if_splits)
  have 4: "fst (User_getByEmail e w) = Inr (Some u) \<longrightarrow> u \<in> set (users w) \<and> email u = Some e"
  proof
    assume h: "fst (User_getByEmail e w) = Inr (Some u)"
    then obtain r w' where qe: "query_email e w = (Inr r, w')" and hd: "u \<in> set r"
      by (auto simp: User_getByEmail_def await_def return_def split: prod.splits sum.splits list.splits)
    from q[OF qe] hd have "u \<in> set (filter (\<lambda>u. email u = Some e) (users w))" by simp
    then show "u \<in> set (users w) \<and> email u = Some e" by simp
  qed
  from 1 2 3 4 show ?thesis by blast
qed

theorem passwordHash_removed_witness:
  "fst (User_create bob_data ''u2'' 7 rev alice_world) = Inr (the_user (users (snd (User_create bob_data ''u2'' 7 rev alice_world))) ''u2'' \<lparr>passwordHash := None\<rparr>) \<and>
   passwordHash (the_user (users (snd (User_create bob_data ''u2'' 7 rev alice_world))) ''u2'') = Some (Some ''terces'') \<and>
   fst (User_getById ''u1'' alice_world) = Inr (Some (alice\<lparr>passwordHash := None\<rparr>)) \<and>
   fst (User_getByUsername ''alice'' alice_world) = Inr (Some (alice\<lparr>passwordHash := None\<rparr>)) \<and>
   fst (User_getByEmail ''alice@example.org'' alice_world) = Inr (Some alice) \<and>
   passwordHash alice = Some (Some ''hash-of-secret'') \<and>
   passwordHash (alice\<lparr>passwordHash := None\<rparr>) = None \<and> alice \<in> set (users alice_world)"
proof -
  have a: "fst (User_create bob_data ''u2'' 7 rev alice_world) = Inr (the_user (users (snd (User_create bob_data ''u2'' 7 rev alice_world))) ''u2'' \<lparr>passwordHash := None\<rparr>)"
       "passwordHash (the_user (users (snd (User_create bob_data ''u2'' 7 rev alice_world))) ''u2'') = Some (Some ''terces'')"
    by (simp_all add: User_create_def bob_data_def alice_world_def alice_def Let_def await_def return_def
          put_new_user_def store_call_def the_user_def tbl_get_def tbl_put_def tbl_delete_def
          or_else_def or_null_def delete_passwordHash_def)
  have b: "fst (User_getById ''u1'' alice_world) = Inr (Some (alice\<lparr>passwordHash := None\<rparr>))"
    by (simp add: User_getById_def get_user_def alice_world_def alice_def await_def return_def
          store_call_def tbl_get_def delete_passwordHash_def)
  have c: "fst (User_getByUsername ''alice'' alice_world) = Inr (Some (alice\<lparr>passwordHash := None\<rparr>))"
    by (simp add: User_getByUsername_def query_username_def alice_world_def alice_def await_def return_def
          store_call_def delete_passwordHash_def)
  have d: "fst (User_getByEmail ''alice@example.org'' alice_world) = Inr (Some alice)"
    by (simp add: User_getByEmail_def query_email_def alice_world_def alice_def await_def return_def
          store_call_def)
  have e: "passwordHash alice = Some (Some ''hash-of-secret'')" by (simp add: alice_def)
  from passwordHash_removed[where d = bob_data and uuid = "''u2''" and now = 7 and hash = rev
         and w = alice_world and uid = "''u1''" and name = "''alice''" and e = "''alice@example.org''"
         and u = "alice\<lparr>passwordHash := None\<rparr>"]
       passwordHash_removed[where d = bob_data and uuid = "''u2''" and now = 7 and hash = rev
         and w = alice_world and uid = "''u1''" and name = "''alice''" and e = "''alice@example.org''"
         and u = alice]
       passwordHash_removed[where d = bob_data and uuid = "''u2''" and now = 7 and hash = rev
         and w = alice_world and uid = "''u1''" and name = "''alice''" and e = "''alice@example.org''"
         and u = "the_user (users (snd (User_create bob_data ''u2'' 7 rev alice_world))) ''u2'' \<lparr>passwordHash := None\<rparr>"]
       a b c d e
  show ?thesis by simp
qed

section \<open>The rate limiter\<close>

lemmas limiter_defs = rateLimiter_def rateLimiter_try_def get_rate_def increment_rate_def put_rate_def
  recordId_def identifier_of_def or_else_def Let_def await_def return_def store_call_def
  tbl_get_def tbl_put_def tbl_delete_def

text \<open>
  With no failing store call the middleware is a case distinction on the stored row.
\<close>

lemma rateLimiter_up:
  assumes "outages w = []"
  shows "rateLimiter opts req now w =
     (case tbl_get r_id (recordId opts req) (rateLimits w) of
        None \<Rightarrow>
          (Next None,
           w\<lparr>rateLimits := tbl_put r_id \<lparr>r_id = recordId opts req, r_count = 1, r_timestamp = now,
                              r_expiryTime = now + windowSizeInSeconds opts * 2\<rparr> (rateLimits w)\<rparr>)
      | Some r \<Rightarrow>
          if r_timestamp r > now - windowSizeInSeconds opts then
            if r_count r \<ge> maxRequests opts
            then (Answer 429 ''Too many requests, please try again later'', w)
            else (Next (Some (maxRequests opts, maxRequests opts - r_count r - 1,
                              r_timestamp r + windowSizeInSeconds opts - now)),
                  w\<lparr>rateLimits := tbl_put r_id (r\<lparr>r_count := r_count r + 1\<rparr>) (rateLimits w)\<rparr>)
          else (Next (Some (maxRequests opts, maxRequests opts - r_count r - 1,
                            r_timestamp r + windowSizeInSeconds opts - now)),
                w\<lparr>rateLimits := tbl_put r_id \<lparr>r_id = recordId opts req, r_count = 1, r_timestamp = now,
                              r_expiryTime = now + windowSizeInSeconds opts * 2\<rparr> (rateLimits w)\<rparr>))"
  using assms
  by (simp add: rateLimiter_def rateLimiter_try_def get_rate_def put_rate_def increment_rate_def
        Let_def await_def return_def store_call_up split: option.splits)

lemma sixth_call_denied:
  assumes "outages w = []" and "tbl_get r_id (recordId opts req) (rateLimits w) = None"
    and "maxRequests opts = 5" and "windowSizeInSeconds opts = 60"
    and "t2 < t1 + 60" and "t3 < t1 + 60" and "t4 < t1 + 60" and "t5 < t1 + 60" and "t6 < t1 + 60"
  shows "fst (admits opts req [t1, t2, t3, t4, t5, t6] w) =
           [Next None, Next (Some (5, 3, t1 + 60 - t2)), Next (Some (5, 2, t1 + 60 - t3)),
            Next (Some (5, 1, t1 + 60 - t4)), Next (Some (5, 0, t1 + 60 - t5)),
            Answer 429 ''Too many requests, please try again later''] \<and>
         snd (admits opts req [t1, t2, t3, t4, t5, t6] w) = snd (admits opts req [t1, t2, t3, t4, t5] w) \<and>
         map_option r_count (tbl_get r_id (recordId opts req)
            (rateLimits (snd (admits opts req [t1, t2, t3, t4, t5, t6] w)))) = Some 5"
  using assms
  by (simp add: rateLimiter_up tbl_get_put)

text \<open>
  Claim C6, with a limit of 5 requests in 60 seconds. Its first half holds (lemma
  \<open>sixth_call_denied\<close>: the sixth call inside the window is answered with status 429
  and the stored count stays 5). Its second half says that the first admission of a fresh
  window reports \<open>remaining = limit - 1\<close>. The middleware computes the header
  \<open>X-RateLimit-Remaining\<close> from the row it read before replacing it: when the expired
  row had used up the window, the fresh row has count 1 and the header says -1, and the
  header \<open>X-RateLimit-Reset\<close> is negative as well.
\<close>

theorem rateLimiter_stale_remaining:
  "rateLimiter five_per_minute a_request 100 stale_world =
     (Next (Some (5, - 1, - 40)),
      stale_world\<lparr>rateLimits := [\<lparr>r_id = ''10.0.0.1:GET/api/posts/timeline'', r_count = 1,
                                   r_timestamp = 100, r_expiryTime = 220\<rparr>]\<rparr>)"
  by (simp add: five_per_minute_def a_request_def stale_world_def limiter_defs)

section \<open>The timeline\<close>

lemma Promise_all_queries:
  "outages w = [] \<Longrightarrow> 0 < limit \<Longrightarrow>
   Promise_all (map (\<lambda>uid. query_UserIdIndex uid limit) userIds) w =
     (Inr (map (\<lambda>uid. take limit (partition_of uid (posts w))) userIds), w)"
  by (induction userIds) (simp_all add: return_def await_def query_UserIdIndex_def store_call_up)

lemma flatMap_Items: "flatMap Items results = replicate (length results) None"
  by (induction results) (simp_all add: flatMap_def Items_def)

lemma newest_first_undefined: "newest_first (replicate n None) = replicate n None"
  by (induction n) (simp_all add: newest_first_def)

text \<open>
  Whatever the posts are, when the store answers every query the timeline is one
  \<open>undefined\<close> for each owner, cut at \<open>limit\<close>.
\<close>

lemma getTimelinePosts_undefined:
  assumes "outages w = []" and "0 < limit"
  shows "Post_getTimelinePosts userIds limit w =
           (Inr (replicate (min (length userIds) limit) None), w)"
  using assms
  by (simp add: Post_getTimelinePosts_def await_def Promise_all_queries return_def Let_def
        flatMap_Items newest_first_undefined min.commute)

text \<open>
  Claim C7 gives the owners u1 with posts at 10, 8, 5 and u2 with posts at 9, 7 and the
  limit 3, and says that the timeline is the posts at 10, 9, 8. The two queries return the
  posts of the owners (oldest first, the query setting no direction), but
  \<open>getTimelinePosts\<close> reads the property \<open>Items\<close> of each returned array, which the
  wrapper has already taken: the timeline is \<open>[undefined, undefined]\<close>.
\<close>

theorem timeline_of_undefined:
  "fst (Promise_all (map (\<lambda>uid. query_UserIdIndex uid 3) [''u1'', ''u2'']) timeline_world) =
     Inr [[post_at ''c'' ''u1'' 5, post_at ''b'' ''u1'' 8, post_at ''a'' ''u1'' 10],
          [post_at ''e'' ''u2'' 7, post_at ''d'' ''u2'' 9]] \<and>
   fst (Post_getTimelinePosts [''u1'', ''u2''] 3 timeline_world) = Inr [None, None]"
proof -
  have up: "outages timeline_world = []" by (simp add: timeline_world_def)
  have a: "map (\<lambda>uid. take 3 (partition_of uid (posts timeline_world))) [''u1'', ''u2''] =
     [[post_at ''c'' ''u1'' 5, post_at ''b'' ''u1'' 8, post_at ''a'' ''u1'' 10],
      [post_at ''e'' ''u2'' 7, post_at ''d'' ''u2'' 9]]"
    by code_simp
  have b: "replicate (min (length [''u1'', ''u2'']) 3) None = [None, None :: post option]"
    by (simp add: numeral_2_eq_2)
  have l: "0 < (3::nat)" by simp
  show ?thesis
    unfolding Promise_all_queries[OF up l] getTimelinePosts_undefined[OF up l] a b by simp
qed

section \<open>Notifications of the controllers\<close>

lemma channel_pred_only_adds: "channel_pred (only_adds P w0)"
  by (simp add: channel_pred_def only_adds_def same_channels_def)

lemma channel_pred_same: "channel_pred (same_channels w0)"
  by (simp add: channel_pred_def same_channels_def)

lemma only_adds_refl: "only_adds P w w"
  by (simp add: only_adds_def)

lemma preserves_return: "preserves G (return x)"
  by (simp add: preserves_def return_def)

lemma preserves_throw: "preserves G (throw e)"
  by (simp add: preserves_def throw_def)

lemma preserves_await:
  assumes "preserves G m" and "\<And>x. preserves G (f x)"
  shows "preserves G (await m f)"
  unfolding preserves_def
proof (intro allI impI)
  fix w assume g: "G w"
  from assms(1) g have g1: "G (snd (m w))" by (simp add: preserves_def)
  show "G (snd (await m f w))"
  proof (cases "m w")
    case (Pair r w1)
    with g1 have g1': "G w1" by simp
    show ?thesis
    proof (cases r)
      case (Inl e)
      then show ?thesis using Pair g1' by (simp add: await_def)
    next
      case (Inr x)
      from assms(2)[of x] g1' have "G (snd (f x w1))" by (simp add: preserves_def)
      then show ?thesis using Pair Inr by (simp add: await_def)
    qed
  qed
qed

lemma preserves_attempt: "preserves G m \<Longrightarrow> preserves G (attempt m)"
  by (auto simp: preserves_def attempt_def split: prod.splits sum.splits)

lemma preserves_store_call:
  assumes "channel_pred G" and "\<And>w. same_channels w (snd (f w))"
  shows "preserves G (store_call f)"
  unfolding preserves_def
proof (intro allI impI)
  fix w assume g: "G w"
  show "G (snd (store_call f w))"
  proof (cases "outages w")
    case Nil
    then have "store_call f w = f w" by (simp add: store_call_def)
    with assms g show ?thesis by (auto simp: channel_pred_def)
  next
    case (Cons b bs)
    have s: "same_channels w (w\<lparr>outages := bs\<rparr>)" by (simp add: same_channels_def)
    with assms(1) g have g': "G (w\<lparr>outages := bs\<rparr>)" by (auto simp: channel_pred_def)
    show ?thesis
    proof (cases b)
      case True
      then show ?thesis using Cons g' by (simp add: store_call_def)
    next
      case False
      then have "store_call f w = f (w\<lparr>outages := bs\<rparr>)" using Cons by (simp add: store_call_def)
      with assms g' show ?thesis by (auto simp: channel_pred_def)
    qed
  qed
qed

lemma preserves_publish:
  "P m \<Longrightarrow> preserves (only_adds P w0) (publishNotification m)"
  by (auto simp: preserves_def publishNotification_def store_call_def only_adds_def split: list.splits)

lemma preserves_emit:
  "P m \<Longrightarrow> preserves (only_adds P w0) (emit room m)"
  by (auto simp: preserves_def emit_def only_adds_def)

lemma preserves_Post_getById: "channel_pred G \<Longrightarrow> preserves G (Post_getById pid)"
  unfolding Post_getById_def by (rule preserves_store_call) (simp_all add: same_channels_def)

lemma preserves_Story_getById: "channel_pred G \<Longrightarrow> preserves G (Story_getById pid)"
  unfolding Story_getById_def by (rule preserves_store_call) (simp_all add: same_channels_def)

lemma preserves_Interaction_getById: "channel_pred G \<Longrightarrow> preserves G (Interaction_getById pid)"
  unfolding Interaction_getById_def by (rule preserves_store_call) (simp_all add: same_channels_def)

lemma preserves_get_user: "channel_pred G \<Longrightarrow> preserves G (get_user pid)"
  unfolding get_user_def by (rule preserves_store_call) (simp_all add: same_channels_def)

lemma preserves_User_getById: "channel_pred G \<Longrightarrow> preserves G (User_getById pid)"
  unfolding User_getById_def
  by (intro preserves_await preserves_get_user) (auto simp: preserves_return split: option.splits)

lemma preserves_Interaction_create: "channel_pred G \<Longrightarrow> preserves G (Interaction_create d uuid now)"
  unfolding Interaction_create_def Let_def put_new_interaction_def update_commentsCount_def
  by (intro preserves_await preserves_store_call)
     (auto simp: preserves_return same_channels_def intro!: preserves_await preserves_store_call)

lemma preserves_find_content: "channel_pred G \<Longrightarrow> preserves G (find_content cid)"
  unfolding find_content_def
  by (intro preserves_await preserves_Post_getById)
     (auto simp: preserves_return preserves_Story_getById split: option.splits intro!: preserves_await)

lemma preserves_check_parent: "channel_pred G \<Longrightarrow> preserves G (check_parent parentId)"
  unfolding check_parent_def
  by (auto simp: preserves_return preserves_Interaction_getById split: option.splits intro!: preserves_await)

lemma preserves_notify_content_owner:
  assumes "\<And>m. senderId m = uid \<Longrightarrow> recipientId m = owner \<Longrightarrow> n_type m = ''comment'' \<Longrightarrow> P m"
  shows "preserves (only_adds P w0) (notify_content_owner uid cid is_post owner u now)"
  unfolding notify_content_owner_def Let_def
  by (intro preserves_attempt preserves_await preserves_publish preserves_emit assms) simp_all

lemma preserves_notify_parent_author:
  assumes "\<And>m. senderId m = uid \<Longrightarrow> recipientId m \<noteq> Some uid \<Longrightarrow> n_type m = ''reply'' \<Longrightarrow> P m"
  shows "preserves (only_adds P w0) (notify_parent_author uid pid u now)"
  unfolding notify_parent_author_def Let_def
  by (intro preserves_attempt preserves_await preserves_Interaction_getById channel_pred_only_adds)
     (auto simp: preserves_return split: option.splits
           intro!: preserves_await preserves_User_getById channel_pred_only_adds preserves_publish preserves_emit assms)

lemma preservesD: "preserves G m \<Longrightarrow> G w \<Longrightarrow> G (snd (m w))"
  by (simp add: preserves_def)

lemma preserves_if:
  "(c \<Longrightarrow> preserves G a) \<Longrightarrow> (\<not> c \<Longrightarrow> preserves G b) \<Longrightarrow> preserves G (if c then a else b)"
  by simp

lemma preserves_Post_like: "channel_pred G \<Longrightarrow> preserves G (Post_like pid uid uuid now)"
  unfolding Post_like_def Let_def read_likesCount_def
  by (intro preserves_await preserves_store_call preserves_Post_getById)
     (auto simp: preserves_return preserves_throw same_channels_def split: option.splits)

lemma preserves_Post_share: "channel_pred G \<Longrightarrow> preserves G (Post_share pid uid)"
  unfolding Post_share_def
  by (intro preserves_store_call) (auto simp: same_channels_def)

lemma preserves_notify_owner:
  assumes "\<And>m. senderId m = uid \<Longrightarrow> recipientId m = p_userId p \<Longrightarrow> P m"
  shows "preserves (only_adds P w0) (notify_owner kind verb uid pid p now)"
  unfolding notify_owner_def Let_def
  by (intro preserves_attempt preserves_await preserves_User_getById channel_pred_only_adds)
     (auto simp: preserves_throw split: option.splits
           intro!: preserves_await preserves_publish preserves_emit assms)

lemma snd_respond: "snd (respond m w) = snd (m w)"
  by (simp add: respond_def split: prod.splits sum.splits)

lemma likePost_never_self:
  "only_adds (\<lambda>m. recipientId m \<noteq> Some uid) w (snd (likePost pid uid uuid now now' w))"
proof -
  have "preserves (only_adds (\<lambda>m. recipientId m \<noteq> Some uid) w)
          (await (Post_like pid uid uuid now) (\<lambda>result.
              await (Post_getById pid) (\<lambda>found.
              await (case found of
                       None \<Rightarrow> return ()
                     | Some p \<Rightarrow>
                         if p_userId p \<noteq> Some uid
                         then notify_owner ''like'' '' liked your post'' uid pid p now'
                         else return ())
                (\<lambda>_. return (200::nat)))))"
    by (intro preserves_await preserves_Post_like preserves_Post_getById channel_pred_only_adds)
       (auto simp: preserves_return split: option.splits intro!: preserves_notify_owner)
  from preservesD[OF this only_adds_refl] show ?thesis
    by (simp add: likePost_def snd_respond)
qed

lemma sharePost_never_self:
  "only_adds (\<lambda>m. recipientId m \<noteq> Some uid) w (snd (sharePost pid uid now' w))"
proof -
  have "preserves (only_adds (\<lambda>m. recipientId m \<noteq> Some uid) w)
          (await (Post_share pid uid) (\<lambda>result.
              await (Post_getById pid) (\<lambda>found.
              await (case found of
                       None \<Rightarrow> return ()
                     | Some p \<Rightarrow>
                         if p_userId p \<noteq> Some uid
                         then notify_owner ''share'' '' shared your post'' uid pid p now'
                         else return ())
                (\<lambda>_. return (200::nat)))))"
    by (intro preserves_await preserves_Post_share preserves_Post_getById channel_pred_only_adds)
       (auto simp: preserves_return split: option.splits intro!: preserves_notify_owner)
  from preservesD[OF this only_adds_refl] show ?thesis
    by (simp add: sharePost_def snd_respond)
qed

lemma preserves_addComment_rest:
  assumes reply: "\<And>m. senderId m = uid \<Longrightarrow> recipientId m \<noteq> Some uid \<Longrightarrow> n_type m = ''reply'' \<Longrightarrow> P m"
    and comment: "\<And>m. senderId m = uid \<Longrightarrow> recipientId m \<noteq> Some uid \<Longrightarrow> recipientId m = owner \<Longrightarrow>
              n_type m = ''comment'' \<Longrightarrow> P m"
  shows "preserves (only_adds P w0)
           (addComment_rest uid cid content parentId uuid now now' now'' (ex, isp, owner))"
proof -
  let ?G = "only_adds P w0"
  have cp: "channel_pred ?G" by (rule channel_pred_only_adds)
  have A: "preserves ?G (if or_null owner \<noteq> None \<and> owner \<noteq> Some uid
                         then notify_content_owner uid cid isp owner u now'
                         else return ())" for u
  proof (cases "or_null owner \<noteq> None \<and> owner \<noteq> Some uid")
    case True
    then have "preserves ?G (notify_content_owner uid cid isp owner u now')"
      by (intro preserves_notify_content_owner comment) simp_all
    moreover have "(if or_null owner \<noteq> None \<and> owner \<noteq> Some uid
                         then notify_content_owner uid cid isp owner u now'
                         else return ()) = notify_content_owner uid cid isp owner u now'"
      using True by (rule if_P)
    ultimately show ?thesis by (simp only:)
  next
    case False
    then have "(if or_null owner \<noteq> None \<and> owner \<noteq> Some uid
                         then notify_content_owner uid cid isp owner u now'
                         else return ()) = return ()"
      by (rule if_not_P)
    then show ?thesis by (simp only: preserves_return)
  qed
  have B: "preserves ?G (case or_null parentId of
                           None \<Rightarrow> return ()
                         | Some pid \<Rightarrow> notify_parent_author uid pid u now'')" for u
    by (cases "or_null parentId")
       (simp_all add: preserves_return preserves_notify_parent_author reply)
  have tail: "preserves ?G (case found of
                None \<Rightarrow> throw (Error ''TypeError'')
              | Some u \<Rightarrow>
                  await (if or_null owner \<noteq> None \<and> owner \<noteq> Some uid
                         then notify_content_owner uid cid isp owner u now'
                         else return ())
                    (\<lambda>_.
                  await (case or_null parentId of
                           None \<Rightarrow> return ()
                         | Some pid \<Rightarrow> notify_parent_author uid pid u now'')
                    (\<lambda>_. return (201::nat))))" for found
  proof (cases found)
    case None
    then show ?thesis by (simp only: option.case preserves_throw)
  next
    case (Some u)
    have "preserves ?G
            (await (if or_null owner \<noteq> None \<and> owner \<noteq> Some uid
                         then notify_content_owner uid cid isp owner u now'
                         else return ())
                    (\<lambda>_.
                  await (case or_null parentId of
                           None \<Rightarrow> return ()
                         | Some pid \<Rightarrow> notify_parent_author uid pid u now'')
                    (\<lambda>_. return (201::nat))))"
      by (intro preserves_await A B preserves_return)
    then show ?thesis unfolding Some by (simp only: option.case)
  qed
  show ?thesis
    unfolding addComment_rest_def prod.case
    by (intro preserves_if preserves_await preserves_return preserves_check_parent
              preserves_Interaction_create preserves_User_getById cp tail)
qed

lemma tbl_get_add_likes:
  "tbl_get postId pid' (add_likesCount pid n ps) =
     (if pid' = pid then Some ((the_post ps pid)\<lparr>likesCount := add_opt (likesCount (the_post ps pid)) n\<rparr>)
      else tbl_get postId pid' ps)"
  by (simp add: add_likesCount_def tbl_get_put postId_the_post)

lemma tbl_get_add_shares:
  "tbl_get postId pid' (add_sharesCount pid n ps) =
     (if pid' = pid then Some ((the_post ps pid)\<lparr>sharesCount := add_opt (sharesCount (the_post ps pid)) n\<rparr>)
      else tbl_get postId pid' ps)"
  by (simp add: add_sharesCount_def tbl_get_put postId_the_post)

lemma likePost_owner:
  assumes "owned_post w pid uid"
  shows "same_channels w (snd (likePost pid uid uuid now now' w))"
  using assms
  by (auto simp: likePost_def respond_def await_def Post_like_def Post_getById_def read_likesCount_def
        store_call_def return_def throw_def Let_def tbl_get_add_likes the_post_def owned_post_def same_channels_def
      split: list.splits if_splits option.splits prod.splits sum.splits)

lemma sharePost_owner:
  assumes "owned_post w pid uid"
  shows "same_channels w (snd (sharePost pid uid now' w))"
  using assms
  by (auto simp: sharePost_def respond_def await_def Post_share_def Post_getById_def
        store_call_def return_def throw_def Let_def tbl_get_add_shares the_post_def owned_post_def same_channels_def
      split: list.splits if_splits option.splits prod.splits sum.splits)

lemma find_content_owned:
  assumes "owned_content w cid uid" and "fst (find_content cid w) = Inr x"
  shows "fst x \<and> snd (snd x) = Some uid"
  using assms
  by (auto simp: find_content_def await_def Post_getById_def Story_getById_def store_call_def return_def
        owned_content_def
      split: list.splits if_splits option.splits prod.splits sum.splits)

lemma addComment_never_self:
  "only_adds (\<lambda>m. recipientId m \<noteq> Some uid) w
     (snd (addComment valid uid cid content parentId uuid now now' now'' w))"
proof -
  have "preserves (only_adds (\<lambda>m. recipientId m \<noteq> Some uid) w)
          (addComment_rest uid cid content parentId uuid now now' now'' x)" for x
    by (cases x) (auto intro: preserves_addComment_rest)
  then have "preserves (only_adds (\<lambda>m. recipientId m \<noteq> Some uid) w)
          (if \<not> valid then return (400::nat)
           else await (find_content cid) (addComment_rest uid cid content parentId uuid now now' now''))"
    by (auto simp: preserves_return intro!: preserves_await preserves_find_content channel_pred_only_adds)
  from preservesD[OF this only_adds_refl] show ?thesis
    by (simp add: addComment_def snd_respond)
qed

lemma addComment_owner_reply_only:
  assumes "owned_content w cid uid"
  shows "only_adds (\<lambda>m. n_type m = ''reply'' \<and> recipientId m \<noteq> Some uid) w
     (snd (addComment valid uid cid content parentId uuid now now' now'' w))"
proof (cases valid)
  case False
  then show ?thesis by (simp add: addComment_def snd_respond return_def only_adds_refl)
next
  case True
  let ?G = "only_adds (\<lambda>m. n_type m = ''reply'' \<and> recipientId m \<noteq> Some uid) w"
  obtain r w1 where fc: "find_content cid w = (r, w1)" by force
  have "preserves ?G (find_content cid)"
    by (rule preserves_find_content) (rule channel_pred_only_adds)
  from preservesD[OF this only_adds_refl[of _ w]] have g1: "?G w1" using fc by simp
  show ?thesis
  proof (cases r)
    case (Inl e)
    then show ?thesis using True fc g1 by (simp add: addComment_def snd_respond await_def)
  next
    case (Inr x)
    obtain ex isp owner where x: "x = (ex, isp, owner)" by (cases x) auto
    from find_content_owned[OF assms, of x] fc Inr x have o: "owner = Some uid" by simp
    have "preserves ?G (addComment_rest uid cid content parentId uuid now now' now'' (ex, isp, Some uid))"
      by (rule preserves_addComment_rest) auto
    from preservesD[OF this g1]
    have "?G (snd (addComment_rest uid cid content parentId uuid now now' now'' (ex, isp, Some uid) w1))" .
    then show ?thesis using True fc Inr x o by (simp add: addComment_def snd_respond await_def)
  qed
qed

lemma addComment_owner_no_parent:
  assumes "owned_content w cid uid" and "or_null parentId = None"
  shows "same_channels w (snd (addComment valid uid cid content parentId uuid now now' now'' w))"
  using assms
  by (auto simp: addComment_def addComment_rest_def respond_def await_def find_content_def check_parent_def
        Interaction_create_def put_new_interaction_def update_commentsCount_def User_getById_def
        get_user_def Post_getById_def Story_getById_def
        store_call_def return_def throw_def Let_def owned_content_def same_channels_def
      split: list.splits if_splits option.splits prod.splits sum.splits)

lemma preserves_notify_comment_author:
  assumes "i_userId comment \<noteq> uid"
  shows "preserves (only_adds (\<lambda>m. recipientId m \<noteq> Some uid) w0)
           (notify_comment_author uid cid comment now)"
  unfolding notify_comment_author_def Let_def
  by (intro preserves_attempt preserves_await preserves_User_getById channel_pred_only_adds)
     (auto simp: preserves_throw assms split: option.splits
           intro!: preserves_await preserves_publish preserves_emit)

lemma likeComment_never_self:
  "only_adds (\<lambda>m. recipientId m \<noteq> Some uid) w (snd (likeComment cid uid uuid now now' w))"
proof -
  let ?G = "only_adds (\<lambda>m. recipientId m \<noteq> Some uid) w"
  have cp: "channel_pred ?G" by (rule channel_pred_only_adds)
  have body: "preserves ?G
       (case found of
            None \<Rightarrow> return 404
          | Some comment \<Rightarrow>
              if i_type comment \<noteq> ''comment'' then return (404::nat)
              else
                await (Interaction_create
                         \<lparr>d_interactionId = None, d_type = ''like'', d_userId = uid,
                          d_contentId = cid, d_content = Some [], d_parentId = None\<rparr> uuid now)
                  (\<lambda>_.
                await (if i_userId comment \<noteq> uid
                       then notify_comment_author uid cid comment now'
                       else return ())
                  (\<lambda>_. return 200)))" for found
  proof (cases found)
    case None
    then show ?thesis by (simp only: option.case preserves_return)
  next
    case (Some comment)
    show ?thesis unfolding Some option.case
      by (intro preserves_if preserves_await preserves_return preserves_Interaction_create cp
                preserves_notify_comment_author)
  qed
  have "preserves ?G (await (Interaction_getById cid) (\<lambda>found.
       (case found of
            None \<Rightarrow> return 404
          | Some comment \<Rightarrow>
              if i_type comment \<noteq> ''comment'' then return (404::nat)
              else
                await (Interaction_create
                         \<lparr>d_interactionId = None, d_type = ''like'', d_userId = uid,
                          d_contentId = cid, d_content = Some [], d_parentId = None\<rparr> uuid now)
                  (\<lambda>_.
                await (if i_userId comment \<noteq> uid
                       then notify_comment_author uid cid comment now'
                       else return ())
                  (\<lambda>_. return 200)))))"
    by (intro preserves_await preserves_Interaction_getById cp body)
  from preservesD[OF this only_adds_refl] show ?thesis
    by (simp add: likeComment_def snd_respond)
qed

lemma likeComment_owner:
  assumes "owned_comment w cid uid"
  shows "same_channels w (snd (likeComment cid uid uuid now now' w))"
  using assms
  by (auto simp: likeComment_def respond_def await_def Interaction_getById_def Interaction_create_def
        put_new_interaction_def store_call_def return_def throw_def Let_def owned_comment_def same_channels_def
      split: list.splits if_splits option.splits prod.splits sum.splits)

lemmas controller_defs = addComment_def addComment_rest_def respond_def await_def find_content_def
  check_parent_def Interaction_create_def Interaction_getById_def put_new_interaction_def
  update_commentsCount_def User_getById_def get_user_def Post_getById_def Story_getById_def
  or_null_def or_else_def notify_content_owner_def notify_parent_author_def attempt_def
  publishNotification_def emit_def store_call_def return_def throw_def Let_def
  tbl_get_def tbl_put_def tbl_delete_def add_commentsCount_def the_post_def add_opt_def
  delete_passwordHash_def name_of_def

text \<open>
  The controller \<open>addComment\<close> reaches the partial write of \<open>Interaction.create\<close>:
  the owner of the post replies to a comment, the post and the parent comment are found,
  the row of the reply is written, and the update of the counter fails. The answer is the
  status 500; the ledger has the reply and the counter still says 1.
\<close>

lemma addComment_partial_write:
  "fst (addComment True ''u1'' ''p1'' (Some ''thanks'') (Some ''c1'') ''c2'' 5 6 7
          (reply_world\<lparr>outages := [False, False, False, True]\<rparr>)) = 500 \<and>
   map interactionId (interactions (snd (addComment True ''u1'' ''p1'' (Some ''thanks'') (Some ''c1'') ''c2'' 5 6 7
          (reply_world\<lparr>outages := [False, False, False, True]\<rparr>)))) = [''c1'', ''c2''] \<and>
   map commentsCount (posts (snd (addComment True ''u1'' ''p1'' (Some ''thanks'') (Some ''c1'') ''c2'' 5 6 7
          (reply_world\<lparr>outages := [False, False, False, True]\<rparr>)))) = [Some 1]"
  by (simp add: reply_world_def alice_def bob_def bobs_comment_def controller_defs)

text \<open>
  The owner of a post replies, on the own post, to the comment of another user: the
  notification to the owner is skipped, and the notification of the reply goes to the
  author of that comment, not to the actor, on the topic and on the socket.
\<close>

lemma owner_reply_notifies_author:
  "owned_content reply_world ''p1'' ''u1'' \<and>
   fst (addComment True ''u1'' ''p1'' (Some ''thanks'') (Some ''c1'') ''c2'' 5 6 7 reply_world) = 201 \<and>
   topic (snd (addComment True ''u1'' ''p1'' (Some ''thanks'') (Some ''c1'') ''c2'' 5 6 7 reply_world)) = [reply_to_bob] \<and>
   sockets (snd (addComment True ''u1'' ''p1'' (Some ''thanks'') (Some ''c1'') ''c2'' 5 6 7 reply_world)) = [(Some ''u2'', reply_to_bob)]"
  by (simp add: reply_world_def alice_def bob_def bobs_comment_def reply_to_bob_def owned_content_def controller_defs)

text \<open>
  Claim C9: a like, a comment or a share in which the acting user is the recipient, the
  owner of the target content, sends no notification: no notification row is written,
  nothing is emitted on a socket and nothing is published to the topic. For every actor
  and every world, whatever calls to the store fail, no message that \<open>likePost\<close>,
  \<open>sharePost\<close>, \<open>likeComment\<close> or \<open>addComment\<close> publishes or emits has the actor as
  its recipient, and none of them writes a notification row. When the actor owns the
  target, \<open>likePost\<close>, \<open>sharePost\<close>, \<open>likeComment\<close> and an \<open>addComment\<close> without a
  parent comment leave the topic, the sockets and the notifications table as they were; an
  \<open>addComment\<close> that replies to a comment sends at most the notification of type
  \<open>reply\<close> to the author of that comment, who is not the actor.
\<close>

theorem self_notification_suppressed:
  "(owned_post w pid uid \<longrightarrow>
      same_channels w (snd (likePost pid uid uuid now now' w)) \<and>
      same_channels w (snd (sharePost pid uid now' w))) \<and>
   (owned_comment w cid uid \<longrightarrow> same_channels w (snd (likeComment cid uid uuid now now' w))) \<and>
   (owned_content w cid uid \<longrightarrow>
      (or_null parentId = None \<longrightarrow>
         same_channels w (snd (addComment valid uid cid content parentId uuid now now' now'' w))) \<and>
      only_adds (\<lambda>m. n_type m = ''reply'' \<and> recipientId m \<noteq> Some uid) w
        (snd (addComment valid uid cid content parentId uuid now now' now'' w))) \<and>
   only_adds (\<lambda>m. recipientId m \<noteq> Some uid) w (snd (likePost pid uid uuid now now' w)) \<and>
   only_adds (\<lambda>m. recipientId m \<noteq> Some uid) w (snd (sharePost pid uid now' w)) \<and>
   only_adds (\<lambda>m. recipientId m \<noteq> Some uid) w (snd (likeComment cid uid uuid now now' w)) \<and>
   only_adds (\<lambda>m. recipientId m \<noteq> Some uid) w
     (snd (addComment valid uid cid content parentId uuid now now' now'' w))"
  using likePost_owner[of w pid uid uuid now now'] sharePost_owner[of w pid uid now']
    likeComment_owner[of w cid uid uuid now now']
    addComment_owner_no_parent[of w cid uid parentId valid content uuid now now' now'']
    addComment_owner_reply_only[of w cid uid valid content parentId uuid now now' now'']
    likePost_never_self[of uid w pid uuid now now'] sharePost_never_self[of uid w pid now']
    likeComment_never_self[of uid w cid uuid now now']
    addComment_never_self[of uid w valid cid content parentId uuid now now' now'']
  by blast

text \<open>
  In a world where u1 owns the post \<open>p1\<close> and u2 wrote the comment \<open>c1\<close> on it: u1
  likes, shares and comments on the post, u2 likes the comment. (The comment without a
  parent and the like of a comment are refused by the store, at the \<open>put\<close> of
  \<open>Interaction.create\<close>, and answered with 500.)
\<close>

theorem self_notification_suppressed_witness:
  "owned_post reply_world ''p1'' ''u1'' \<and> owned_content reply_world ''p1'' ''u1'' \<and>
   or_null None = None \<and>
   fst (likePost ''p1'' ''u1'' ''x1'' 5 6 reply_world) = 200 \<and>
   fst (sharePost ''p1'' ''u1'' 6 reply_world) = 200 \<and>
   fst (addComment True ''u1'' ''p1'' (Some ''thanks'') None ''x1'' 5 6 7 reply_world) = 500 \<and>
   fst (likeComment ''c1'' ''u2'' ''x1'' 5 6 reply_world) = 500 \<and>
   same_channels reply_world (snd (likePost ''p1'' ''u1'' ''x1'' 5 6 reply_world)) \<and>
   same_channels reply_world (snd (sharePost ''p1'' ''u1'' 6 reply_world)) \<and>
   same_channels reply_world
     (snd (addComment True ''u1'' ''p1'' (Some ''thanks'') None ''x1'' 5 6 7 reply_world)) \<and>
   only_adds (\<lambda>m. n_type m = ''reply'' \<and> recipientId m \<noteq> Some ''u1'') reply_world
     (snd (addComment True ''u1'' ''p1'' (Some ''thanks'') None ''x1'' 5 6 7 reply_world)) \<and>
   owned_comment reply_world ''c1'' ''u2'' \<and>
   same_channels reply_world (snd (likeComment ''c1'' ''u2'' ''x1'' 5 6 reply_world))"
proof -
  have a: "owned_post reply_world ''p1'' ''u1''"
    by (simp add: owned_post_def reply_world_def tbl_get_def)
  have b: "owned_content reply_world ''p1'' ''u1''"
    by (simp add: owned_content_def reply_world_def tbl_get_def)
  have c: "or_null None = None" by (simp add: or_null_def)
  have d: "owned_comment reply_world ''c1'' ''u2''"
    by (simp add: owned_comment_def reply_world_def bobs_comment_def tbl_get_def)
  have e: "fst (likePost ''p1'' ''u1'' ''x1'' 5 6 reply_world) = 200"
    by (simp add: reply_world_def alice_def bob_def bobs_comment_def likePost_def Post_like_def
          read_likesCount_def add_likesCount_def controller_defs)
  have f: "fst (sharePost ''p1'' ''u1'' 6 reply_world) = 200"
    by (simp add: reply_world_def alice_def bob_def bobs_comment_def sharePost_def Post_share_def
          add_sharesCount_def controller_defs)
  have g: "fst (addComment True ''u1'' ''p1'' (Some ''thanks'') None ''x1'' 5 6 7 reply_world) = 500"
    by (simp add: reply_world_def alice_def bob_def bobs_comment_def controller_defs)
  have h: "fst (likeComment ''c1'' ''u2'' ''x1'' 5 6 reply_world) = 500"
    by (simp add: reply_world_def alice_def bob_def bobs_comment_def likeComment_def controller_defs)
  from self_notification_suppressed[where w = reply_world and pid = "''p1''" and uid = "''u1''"
         and uuid = "''x1''" and now = 5 and now' = 6 and now'' = 7 and cid = "''p1''"
         and parentId = None and valid = True and content = "Some ''thanks''"]
       self_notification_suppressed[where w = reply_world and pid = "''p1''" and uid = "''u2''"
         and uuid = "''x1''" and now = 5 and now' = 6 and now'' = 7 and cid = "''c1''"
         and parentId = None and valid = True and content = "Some ''thanks''"] a b c d e f g h
  show ?thesis by blast
qed

section \<open>The cursor codec\<close>


































end
